theory Spec2Isabelle
  imports Complex_Main "HOL-Library.Word"
begin

section \<open>Go values\<close>

text \<open>
  A Go slice or map can be nil, and \<^verbatim>\<open>reflect.DeepEqual\<close> tells a nil slice (map) from an
  empty one. A nilable slice is therefore an optional list and a nilable map an optional
  HOL map, \<open>None\<close> being nil; \<^verbatim>\<open>reflect.DeepEqual\<close> on two values of one type is then HOL
  equality. Ranging over a nil slice runs no iteration.
\<close>

type_synonym 'a slice = "'a list option"

section \<open>Data model\<close>

subsection \<open>pkg/config/format.go\<close>

record AppConfig =
  Debug :: bool
  UpdateCheck :: bool
  RemoveUnwantedContainers :: bool

text \<open>\<^verbatim>\<open>config.PortBinding\<close>: the four strings of one \<^verbatim>\<open>port_bindings\<close> entry.\<close>

record cfg_PortBinding =
  cfg_Port :: string
  cfg_Protocol :: string
  cfg_HostIP :: string
  cfg_HostPort :: string

text \<open>\<^verbatim>\<open>config.ContainerConfig\<close>: one entry of \<^verbatim>\<open>containers\<close> in the YAML document.\<close>

record cfg_ContainerConfig =
  cfg_Image :: string
  cfg_Name :: string
  cfg_PortBindings :: "cfg_PortBinding list"
  cfg_Env :: "string slice"
  cfg_Cmd :: "string slice"

record Config =
  AppConfig :: AppConfig
  Containers :: "cfg_ContainerConfig list"

subsection \<open>pkg/docker/container.go and the engine's types\<close>

text \<open>
  \<^verbatim>\<open>nat.Port\<close> is a string such as \<^verbatim>\<open>80/tcp\<close>; \<^verbatim>\<open>nat.PortSet\<close> is \<^verbatim>\<open>map[Port]struct{}\<close>, a nilable
  set; \<^verbatim>\<open>nat.PortMap\<close> is \<^verbatim>\<open>map[Port][]PortBinding\<close>, a nilable map to nilable slices.
\<close>

type_synonym Port = string

type_synonym PortSet = "Port set option"

record PortBinding =
  HostIP :: string
  HostPort :: string

type_synonym PortMap = "(Port \<rightharpoonup> PortBinding slice) option"

text \<open>\<^verbatim>\<open>docker.ContainerConfig\<close>: the desired spec of one container.\<close>

record ContainerConfig =
  Image :: string
  Name :: string
  ExposedPorts :: PortSet
  PortBindings :: PortMap
  Env :: "string slice"
  Cmd :: "string slice"

text \<open>
  Modelled from the spec: the engine client's declarations of the inspection answer are
  not part of the repository sources. What the code reads of \<^verbatim>\<open>ContainerInspect\<close>'s answer
  is \<^verbatim>\<open>inspect.Image\<close> (the identifier of the image the container runs), \<^verbatim>\<open>inspect.Config\<close>
  (image reference, exposed ports, environment, command) and
  \<^verbatim>\<open>inspect.HostConfig.PortBindings\<close>. The observed exposed ports, port bindings and command
  have the types of the desired ones, as the data model of the specification lists
  them, so that \<^verbatim>\<open>reflect.DeepEqual\<close> compares values of one type. The engine fills the two
  pointers \<^verbatim>\<open>Config\<close> and \<^verbatim>\<open>HostConfig\<close> for every container.
\<close>

record container_Config =
  Config_Image :: string
  Config_ExposedPorts :: PortSet
  Config_Env :: "string slice"
  Config_Cmd :: "string slice"

record ContainerJSON =
  inspect_Image :: string
  inspect_Config :: container_Config
  HostConfig_PortBindings :: PortMap

section \<open>ConfigToDockerConfig\<close>

text \<open>
  \<^verbatim>\<open>nat.NewPort(proto, port)\<close> belongs to an external library; it is a parameter \<open>NewPort\<close>
  that answers an error text or a port key.

  The two inner loops of \<^verbatim>\<open>ConfigToDockerConfig\<close> fill a fresh port set and a fresh port
  map from the \<^verbatim>\<open>port_bindings\<close> of one container, returning at the first \<^verbatim>\<open>NewPort\<close>
  error. The map loop stores under the key a one-element slice: an assignment, not an
  append.
\<close>

fun portSet_loop ::
  "(string \<Rightarrow> string \<Rightarrow> string + Port) \<Rightarrow> cfg_PortBinding list \<Rightarrow> Port set \<Rightarrow> string + Port set"
where
  "portSet_loop NewPort [] portSet = Inr portSet"
| "portSet_loop NewPort (portBinding # rest) portSet =
     (case NewPort (cfg_Protocol portBinding) (cfg_Port portBinding) of
        Inl err \<Rightarrow> Inl err
      | Inr port \<Rightarrow> portSet_loop NewPort rest (insert port portSet))"

fun portMap_loop ::
  "(string \<Rightarrow> string \<Rightarrow> string + Port) \<Rightarrow> cfg_PortBinding list \<Rightarrow>
   (Port \<rightharpoonup> PortBinding slice) \<Rightarrow> string + (Port \<rightharpoonup> PortBinding slice)"
where
  "portMap_loop NewPort [] portMap = Inr portMap"
| "portMap_loop NewPort (portBinding # rest) portMap =
     (case NewPort (cfg_Protocol portBinding) (cfg_Port portBinding) of
        Inl err \<Rightarrow> Inl err
      | Inr port \<Rightarrow>
          portMap_loop NewPort rest
            (portMap(port \<mapsto>
               Some [\<lparr>HostIP = cfg_HostIP portBinding, HostPort = cfg_HostPort portBinding\<rparr>])))"

text \<open>
  The outer loop appends one spec per declared container to the package-level variable
  \<^verbatim>\<open>containers\<close>, which is declared once (\<^verbatim>\<open>var containers []docker.ContainerConfig\<close>) and
  never reset. The variable is the state threaded through: the function takes its
  value before the call and returns its value after the call beside the result. On a
  \<^verbatim>\<open>NewPort\<close> error the result is the error and the variable keeps what was appended so far.
\<close>

fun containers_loop ::
  "(string \<Rightarrow> string \<Rightarrow> string + Port) \<Rightarrow> cfg_ContainerConfig list \<Rightarrow>
   ContainerConfig list \<Rightarrow> (string + unit) \<times> ContainerConfig list"
where
  "containers_loop NewPort [] containers = (Inr (), containers)"
| "containers_loop NewPort (container # rest) containers =
     (case portSet_loop NewPort (cfg_PortBindings container) {} of
        Inl err \<Rightarrow> (Inl err, containers)
      | Inr portSet \<Rightarrow>
          (case portMap_loop NewPort (cfg_PortBindings container) Map.empty of
             Inl err \<Rightarrow> (Inl err, containers)
           | Inr portMap \<Rightarrow>
               containers_loop NewPort rest
                 (containers @
                   [\<lparr>Image = cfg_Image container, Name = cfg_Name container,
                     ExposedPorts = Some portSet, PortBindings = Some portMap,
                     Env = cfg_Env container, Cmd = cfg_Cmd container\<rparr>])))"

definition ConfigToDockerConfig ::
  "(string \<Rightarrow> string \<Rightarrow> string + Port) \<Rightarrow> Config \<Rightarrow> ContainerConfig list \<Rightarrow>
   (string + ContainerConfig list) \<times> ContainerConfig list"
where
  "ConfigToDockerConfig NewPort config containers =
     (case containers_loop NewPort (Containers config) containers of
        (Inl err, containers') \<Rightarrow> (Inl err, containers')
      | (Inr _, containers') \<Rightarrow> (Inr containers', containers'))"

text \<open>
  A stand-in for \<^verbatim>\<open>nat.NewPort\<close> on concrete runs: the port text, a slash, the protocol;
  an empty port text is refused.
\<close>

definition slashPort :: "string \<Rightarrow> string \<Rightarrow> string + Port" where
  "slashPort proto port = (if port = [] then Inl ''empty port'' else Inr (port @ ''/'' @ proto))"

section \<open>The comparator of ensureContainerConfig\<close>

text \<open>
  Lines 115 to 147 of \<^verbatim>\<open>ensureContainerConfig\<close>: the flag \<^verbatim>\<open>needsUpdate\<close> starts false and
  each mismatching field sets it; no check returns early. The environment check is
  commented out in the source. The command is compared only under \<^verbatim>\<open>config.Cmd != nil\<close>.
\<close>

definition needsUpdate :: "ContainerConfig \<Rightarrow> ContainerJSON \<Rightarrow> bool" where
  "needsUpdate config inspect =
     (let n0 = False;
          n1 = (if Config_ExposedPorts (inspect_Config inspect) \<noteq> ExposedPorts config
                then True else n0);
          n2 = (if HostConfig_PortBindings inspect \<noteq> PortBindings config then True else n1);
          n3 = (if Config_Image (inspect_Config inspect) \<noteq> Image config then True else n2);
          n4 = (if Cmd config \<noteq> None
                then (if Config_Cmd (inspect_Config inspect) \<noteq> Cmd config then True else n3)
                else n3)
      in n4)"

section \<open>The engine client\<close>

text \<open>
  How a function of the program can end without a result: with a returned error (its
  text), with \<^verbatim>\<open>log.Fatalf\<close> (the message is logged and the process exits), or with a
  run-time panic (\<^verbatim>\<open>Names[0]\<close> on a container without a name).
\<close>

datatype failure = Err string | Fatal string | Panic string

text \<open>\<^verbatim>\<open>types.Container\<close> and \<^verbatim>\<open>image.Summary\<close>, as far as the code reads them.\<close>

record Container =
  ID :: string
  Names :: "string list"

record image_Summary =
  image_ID :: string
  RepoTags :: "string list"

text \<open>The arguments of \<^verbatim>\<open>ContainerCreate\<close>: the container configuration, the port bindings
  of the host configuration and the container name.\<close>

record create_request =
  create_Config :: container_Config
  create_PortBindings :: PortMap
  create_Name :: string

text \<open>
  The container engine is an external collaborator. Its client is a parameter: one
  operation per method the program calls, each a function from the engine's state (of
  any type \<open>'e\<close>) to an answer (an error text or a value) and the engine's next state.
  \<^verbatim>\<open>ContainerList\<close> is always called with \<^verbatim>\<open>All: true\<close>. \<^verbatim>\<open>ImagePull\<close> stands for the pull
  together with the draining of its reader (the result of \<^verbatim>\<open>io.Copy\<close> is discarded).
\<close>

record 'e client =
  ContainerList :: "'e \<Rightarrow> (string + Container list) \<times> 'e"
  ContainerInspect :: "string \<Rightarrow> 'e \<Rightarrow> (string + ContainerJSON) \<times> 'e"
  ContainerCreate :: "create_request \<Rightarrow> 'e \<Rightarrow> (string + unit) \<times> 'e"
  ContainerStart :: "string \<Rightarrow> 'e \<Rightarrow> (string + unit) \<times> 'e"
  ContainerStop :: "string \<Rightarrow> 'e \<Rightarrow> (string + unit) \<times> 'e"
  ContainerRemove :: "string \<Rightarrow> 'e \<Rightarrow> (string + unit) \<times> 'e"
  ImagePull :: "string \<Rightarrow> 'e \<Rightarrow> (string + unit) \<times> 'e"
  ImageList :: "'e \<Rightarrow> (string + image_Summary list) \<times> 'e"

text \<open>The calls the program issues, recorded in the order it issues them.\<close>

datatype call =
  ListCall
  | InspectCall string
  | CreateCall create_request
  | StartCall string
  | StopCall string
  | RemoveCall string
  | PullCall string
  | ImageListCall

record 'e world =
  engine :: 'e
  calls :: "call list"

type_synonym ('a, 'e) prog = "'e world \<Rightarrow> (failure + 'a) \<times> 'e world"

definition ret :: "'a \<Rightarrow> ('a, 'e) prog" where
  "ret a w = (Inr a, w)"

definition lift :: "failure + 'a \<Rightarrow> ('a, 'e) prog" where
  "lift r w = (r, w)"

text \<open>\<^verbatim>\<open>x, err := m(); if err != nil { return err }; f(x)\<close>. A fatal exit and a panic end the
  run the same way.\<close>

definition andThen :: "('a, 'e) prog \<Rightarrow> ('a \<Rightarrow> ('b, 'e) prog) \<Rightarrow> ('b, 'e) prog" where
  "andThen m f w = (case m w of (Inl x, w') \<Rightarrow> (Inl x, w') | (Inr a, w') \<Rightarrow> f a w')"

text \<open>One call of the engine: the call is recorded, the engine moves to its next state,
  and an error text becomes a returned error.\<close>

definition engine_call :: "call \<Rightarrow> ('e \<Rightarrow> (string + 'a) \<times> 'e) \<Rightarrow> ('a, 'e) prog" where
  "engine_call c operation w =
     (case operation (engine w) of
        (r, e') \<Rightarrow>
          ((case r of Inl msg \<Rightarrow> Inl (Err msg) | Inr a \<Rightarrow> Inr a),
           \<lparr>engine = e', calls = calls w @ [c]\<rparr>))"

text \<open>\<^verbatim>\<open>if err != nil { log.Fatalf(prefix + err) }\<close>: a returned error ends the process.\<close>

definition fatal_on_error :: "string \<Rightarrow> ('a, 'e) prog \<Rightarrow> ('a, 'e) prog" where
  "fatal_on_error prefix m w =
     (case m w of
        (Inl (Err msg), w') \<Rightarrow> (Inl (Fatal (prefix @ msg)), w')
      | (r, w') \<Rightarrow> (r, w'))"

section \<open>pkg/docker/container.go\<close>

definition DeleteContainer :: "'e client \<Rightarrow> string \<Rightarrow> (unit, 'e) prog" where
  "DeleteContainer cli containerId =
     andThen (engine_call (StopCall containerId) (ContainerStop cli containerId)) (\<lambda>_.
     andThen (engine_call (RemoveCall containerId) (ContainerRemove cli containerId)) (\<lambda>_.
     ret ()))"

text \<open>
  The loop \<^verbatim>\<open>for _, container := range containers { if container.Names[0] == "/"+name {
  found = true; break } }\<close>. Indexing an empty \<^verbatim>\<open>Names\<close> panics.
\<close>

fun name_exists :: "string \<Rightarrow> Container list \<Rightarrow> failure + bool" where
  "name_exists name [] = Inr False"
| "name_exists name (container # rest) =
     (case Names container of
        [] \<Rightarrow> Inl (Panic ''index out of range [0] with length 0'')
      | n # _ \<Rightarrow> if n = ''/'' @ name then Inr True else name_exists name rest)"

definition create_request_of :: "ContainerConfig \<Rightarrow> create_request" where
  "create_request_of config =
     \<lparr>create_Config =
        \<lparr>Config_Image = Image config, Config_ExposedPorts = ExposedPorts config,
         Config_Env = Env config, Config_Cmd = Cmd config\<rparr>,
      create_PortBindings = PortBindings config,
      create_Name = Name config\<rparr>"

text \<open>\<^verbatim>\<open>CreateContainer\<close> answers \<^verbatim>\<open>(err, created)\<close>: the result here is \<open>created\<close>.\<close>

definition CreateContainer :: "'e client \<Rightarrow> ContainerConfig \<Rightarrow> (bool, 'e) prog" where
  "CreateContainer cli config =
     andThen (engine_call ListCall (ContainerList cli)) (\<lambda>containers.
     andThen (if containers \<noteq> [] then lift (name_exists (Name config) containers)
              else ret False) (\<lambda>found.
     if found then ret False
     else
       andThen (engine_call (CreateCall (create_request_of config))
                  (ContainerCreate cli (create_request_of config))) (\<lambda>_.
       ret True)))"

definition EnsureRunningContainers :: "'e client \<Rightarrow> string \<Rightarrow> (unit, 'e) prog" where
  "EnsureRunningContainers cli containerID =
     engine_call (StartCall containerID) (ContainerStart cli containerID)"

text \<open>The first container of the list whose \<^verbatim>\<open>Names[0]\<close> is the slash and the name.\<close>

fun find_by_name :: "string \<Rightarrow> Container list \<Rightarrow> failure + Container option" where
  "find_by_name name [] = Inr None"
| "find_by_name name (container # rest) =
     (case Names container of
        [] \<Rightarrow> Inl (Panic ''index out of range [0] with length 0'')
      | n # _ \<Rightarrow> if n = ''/'' @ name then Inr (Some container) else find_by_name name rest)"

definition GetContainerIDByName :: "'e client \<Rightarrow> string \<Rightarrow> (string, 'e) prog" where
  "GetContainerIDByName cli containerName =
     andThen (engine_call ListCall (ContainerList cli)) (\<lambda>containers.
     andThen (lift (find_by_name containerName containers)) (\<lambda>hit.
     case hit of
       Some container \<Rightarrow> ret (ID container)
     | None \<Rightarrow> lift (Inl (Err (''container '' @ containerName @ '' not found'')))))"

definition ListAllContariners :: "'e client \<Rightarrow> (Container list, 'e) prog" where
  "ListAllContariners cli = engine_call ListCall (ContainerList cli)"

section \<open>The reconciliation functions of the main package\<close>

subsection \<open>isContainerUpToDate\<close>

text \<open>
  The inner loop over the tags of one image stops at the first tag equal to the
  reference (\<^verbatim>\<open>break\<close> leaves the inner loop only); the outer loop goes on over all images,
  so that a later image with a matching tag overwrites \<^verbatim>\<open>latestImageID\<close>.
\<close>

fun tags_loop :: "string \<Rightarrow> string \<Rightarrow> string list \<Rightarrow> string \<Rightarrow> string" where
  "tags_loop ref imgID [] latestImageID = latestImageID"
| "tags_loop ref imgID (tag # rest) latestImageID =
     (if tag = ref then imgID else tags_loop ref imgID rest latestImageID)"

fun images_loop :: "string \<Rightarrow> image_Summary list \<Rightarrow> string \<Rightarrow> string" where
  "images_loop ref [] latestImageID = latestImageID"
| "images_loop ref (img # rest) latestImageID =
     images_loop ref rest (tags_loop ref (image_ID img) (RepoTags img) latestImageID)"

definition isContainerUpToDate ::
  "'e client \<Rightarrow> string \<Rightarrow> ContainerConfig \<Rightarrow> (bool, 'e) prog"
where
  "isContainerUpToDate cli containerID config =
     andThen (engine_call (InspectCall containerID) (ContainerInspect cli containerID))
       (\<lambda>inspect.
     andThen (engine_call (PullCall (Image config)) (ImagePull cli (Image config))) (\<lambda>_.
     andThen (engine_call ImageListCall (ImageList cli)) (\<lambda>images.
     let runningImageID = inspect_Image inspect;
         latestImageID = images_loop (Image config) images []
     in if latestImageID = []
        then lift (Inl (Err (''could not find the latest image for '' @ Image config)))
        else ret (runningImageID = latestImageID))))"

subsection \<open>ensureContainerConfig\<close>

definition ensureContainerConfig :: "'e client \<Rightarrow> ContainerConfig \<Rightarrow> (unit, 'e) prog" where
  "ensureContainerConfig cli config =
     andThen (engine_call ListCall (ContainerList cli)) (\<lambda>containers.
     andThen (lift (find_by_name (Name config) containers)) (\<lambda>hit.
     case hit of
       Some container \<Rightarrow>
         andThen (engine_call (InspectCall (ID container)) (ContainerInspect cli (ID container)))
           (\<lambda>inspect.
         if needsUpdate config inspect
         then
           andThen (DeleteContainer cli (ID container)) (\<lambda>_.
           andThen (CreateContainer cli config) (\<lambda>created.
           ret ()))
         else ret ())
     | None \<Rightarrow>
         andThen (engine_call (CreateCall (create_request_of config))
                    (ContainerCreate cli (create_request_of config))) (\<lambda>_.
         ret ())))"

subsection \<open>ensureContainers\<close>

text \<open>
  The body of the loop over the desired containers, for one of them. \<open>runningContainers\<close>
  is the list read once before the loop. An error of \<^verbatim>\<open>ensureContainerConfig\<close> goes to
  \<^verbatim>\<open>log.Fatalf\<close>; every other error is returned.
\<close>

definition ensureContainers_body ::
  "'e client \<Rightarrow> Container list \<Rightarrow> bool \<Rightarrow> ContainerConfig \<Rightarrow> (unit, 'e) prog"
where
  "ensureContainers_body cli runningContainers updateCheck container =
     andThen (if runningContainers \<noteq> []
              then lift (name_exists (Name container) runningContainers)
              else ret False) (\<lambda>found.
     andThen (if \<not> found then CreateContainer cli container else ret False) (\<lambda>created.
     andThen (if \<not> created
              then fatal_on_error ''Error ensuring container configuration: ''
                     (ensureContainerConfig cli container)
              else ret ()) (\<lambda>_.
     andThen (GetContainerIDByName cli (Name container)) (\<lambda>ctid.
     andThen (if updateCheck \<and> \<not> created
              then
                andThen (isContainerUpToDate cli ctid container) (\<lambda>upToDate.
                if \<not> upToDate
                then
                  andThen (DeleteContainer cli ctid) (\<lambda>_.
                  andThen (CreateContainer cli container) (\<lambda>_.
                  GetContainerIDByName cli (Name container)))
                else ret ctid)
              else ret ctid) (\<lambda>ctid.
     EnsureRunningContainers cli ctid)))))"

fun ensureContainers_loop ::
  "'e client \<Rightarrow> Container list \<Rightarrow> bool \<Rightarrow> ContainerConfig list \<Rightarrow> (unit, 'e) prog"
where
  "ensureContainers_loop cli runningContainers updateCheck [] w = (Inr (), w)"
| "ensureContainers_loop cli runningContainers updateCheck (container # rest) w =
     (case ensureContainers_body cli runningContainers updateCheck container w of
        (Inl x, w') \<Rightarrow> (Inl x, w')
      | (Inr _, w') \<Rightarrow> ensureContainers_loop cli runningContainers updateCheck rest w')"

definition ensureContainers ::
  "'e client \<Rightarrow> ContainerConfig list \<Rightarrow> bool \<Rightarrow> (unit, 'e) prog"
where
  "ensureContainers cli desierdContainers updateCheck =
     andThen (ListAllContariners cli) (\<lambda>runningContainers.
     ensureContainers_loop cli runningContainers updateCheck desierdContainers)"

subsection \<open>removeUnwantedContainers\<close>

text \<open>
  The inner loop over the desired specs for one observed container. \<^verbatim>\<open>Names[0]\<close> is read
  once per spec, so it is not read at all when there is no spec.
\<close>

fun configs_loop :: "Container \<Rightarrow> ContainerConfig list \<Rightarrow> failure + bool" where
  "configs_loop container [] = Inr False"
| "configs_loop container (config # rest) =
     (case Names container of
        [] \<Rightarrow> Inl (Panic ''index out of range [0] with length 0'')
      | n # _ \<Rightarrow> if n = ''/'' @ Name config then Inr True else configs_loop container rest)"

fun removeUnwanted_loop ::
  "'e client \<Rightarrow> ContainerConfig list \<Rightarrow> Container list \<Rightarrow> (unit, 'e) prog"
where
  "removeUnwanted_loop cli configs [] w = (Inr (), w)"
| "removeUnwanted_loop cli configs (container # rest) w =
     (case configs_loop container configs of
        Inl x \<Rightarrow> (Inl x, w)
      | Inr found \<Rightarrow>
          if \<not> found
          then
            (case DeleteContainer cli (ID container) w of
               (Inl x, w') \<Rightarrow> (Inl x, w')
             | (Inr _, w') \<Rightarrow> removeUnwanted_loop cli configs rest w')
          else removeUnwanted_loop cli configs rest w)"

definition removeUnwantedContainers ::
  "'e client \<Rightarrow> ContainerConfig list \<Rightarrow> (unit, 'e) prog"
where
  "removeUnwantedContainers cli configs =
     andThen (ListAllContariners cli) (\<lambda>containers.
     removeUnwanted_loop cli configs containers)"

section \<open>pkg/metrics/metrics.go\<close>

text \<open>
  A \<^verbatim>\<open>float64\<close> is a finite value, an infinity or a NaN. Finite values are real numbers:
  the rounding of a finite result to the nearest representable number and the sign of
  zero are not modelled. Every operand here comes from an unsigned integer, so a zero
  is a positive zero. What the operations answer at a zero divisor, at an infinity and
  at a NaN is that of the floating-point standard.
\<close>

datatype float64 = Finite real | PosInf | NegInf | NaN

fun fdiv :: "float64 \<Rightarrow> float64 \<Rightarrow> float64" where
  "fdiv NaN _ = NaN"
| "fdiv _ NaN = NaN"
| "fdiv (Finite a) (Finite b) =
     (if b = 0 then (if a = 0 then NaN else if 0 < a then PosInf else NegInf)
      else Finite (a / b))"
| "fdiv (Finite a) PosInf = Finite 0"
| "fdiv (Finite a) NegInf = Finite 0"
| "fdiv PosInf (Finite b) = (if 0 \<le> b then PosInf else NegInf)"
| "fdiv NegInf (Finite b) = (if 0 \<le> b then NegInf else PosInf)"
| "fdiv PosInf PosInf = NaN"
| "fdiv PosInf NegInf = NaN"
| "fdiv NegInf PosInf = NaN"
| "fdiv NegInf NegInf = NaN"

fun fmul :: "float64 \<Rightarrow> float64 \<Rightarrow> float64" where
  "fmul NaN _ = NaN"
| "fmul _ NaN = NaN"
| "fmul (Finite a) (Finite b) = Finite (a * b)"
| "fmul (Finite a) PosInf = (if a = 0 then NaN else if 0 < a then PosInf else NegInf)"
| "fmul (Finite a) NegInf = (if a = 0 then NaN else if 0 < a then NegInf else PosInf)"
| "fmul PosInf (Finite b) = (if b = 0 then NaN else if 0 < b then PosInf else NegInf)"
| "fmul NegInf (Finite b) = (if b = 0 then NaN else if 0 < b then NegInf else PosInf)"
| "fmul PosInf PosInf = PosInf"
| "fmul PosInf NegInf = NegInf"
| "fmul NegInf PosInf = NegInf"
| "fmul NegInf NegInf = PosInf"

fun fsub :: "float64 \<Rightarrow> float64 \<Rightarrow> float64" where
  "fsub NaN _ = NaN"
| "fsub _ NaN = NaN"
| "fsub (Finite a) (Finite b) = Finite (a - b)"
| "fsub (Finite a) PosInf = NegInf"
| "fsub (Finite a) NegInf = PosInf"
| "fsub PosInf (Finite b) = PosInf"
| "fsub NegInf (Finite b) = NegInf"
| "fsub PosInf PosInf = NaN"
| "fsub PosInf NegInf = PosInf"
| "fsub NegInf PosInf = NegInf"
| "fsub NegInf NegInf = NaN"

text \<open>\<^verbatim>\<open>float64(x)\<close> of an unsigned 64-bit integer.\<close>

definition float64_of :: "64 word \<Rightarrow> float64" where
  "float64_of x = Finite (real (unat x))"

text \<open>
  \<^verbatim>\<open>types.StatsJSON\<close>, as far as \<^verbatim>\<open>UpdateMetrics\<close> reads it. The counters are \<^verbatim>\<open>uint64\<close>:
  subtraction and addition wrap. \<^verbatim>\<open>Networks\<close> is a map in the source; only the sum over
  its values is used, so the values are listed. \<^verbatim>\<open>MemoryStats.Stats\<close> is a map read at two
  keys, a missing key reading as zero.
\<close>

record NetworkStats =
  RxBytes :: "64 word"
  TxBytes :: "64 word"

record BlkioStatEntry =
  Op :: string
  Value :: "64 word"

record StatsJSON =
  stats_ID :: string
  stats_Name :: string
  CPUStats_TotalUsage :: "64 word"
  PreCPUStats_TotalUsage :: "64 word"
  CPUStats_SystemUsage :: "64 word"
  PreCPUStats_SystemUsage :: "64 word"
  CPUStats_PercpuUsage :: "64 word list"
  MemoryStats_Usage :: "64 word"
  MemoryStats_MaxUsage :: "64 word"
  MemoryStats_Limit :: "64 word"
  MemoryStats_Stats :: "string \<rightharpoonup> 64 word"
  Networks :: "NetworkStats list"
  IoServiceBytesRecursive :: "BlkioStatEntry list"

definition stat_at :: "(string \<rightharpoonup> 64 word) \<Rightarrow> string \<Rightarrow> 64 word" where
  "stat_at m k = (case m k of None \<Rightarrow> 0 | Some v \<Rightarrow> v)"

text \<open>The CPU usage calculation, lines 127 to 129: no check of the divisor.\<close>

definition cpuPercent :: "StatsJSON \<Rightarrow> float64" where
  "cpuPercent stats =
     (let cpuDelta = float64_of (CPUStats_TotalUsage stats - PreCPUStats_TotalUsage stats);
          systemDelta = float64_of (CPUStats_SystemUsage stats - PreCPUStats_SystemUsage stats)
      in fmul (fmul (fdiv cpuDelta systemDelta)
                 (Finite (real (length (CPUStats_PercpuUsage stats)))))
           (Finite 100))"

fun network_loop :: "NetworkStats list \<Rightarrow> 64 word \<times> 64 word \<Rightarrow> 64 word \<times> 64 word" where
  "network_loop [] (rxBytes, txBytes) = (rxBytes, txBytes)"
| "network_loop (v # rest) (rxBytes, txBytes) =
     network_loop rest (rxBytes + RxBytes v, txBytes + TxBytes v)"

fun blkio_loop :: "BlkioStatEntry list \<Rightarrow> 64 word \<times> 64 word \<Rightarrow> 64 word \<times> 64 word" where
  "blkio_loop [] (blkRead, blkWrite) = (blkRead, blkWrite)"
| "blkio_loop (bio # rest) (blkRead, blkWrite) =
     (if Op bio = ''read'' then blkio_loop rest (blkRead + Value bio, blkWrite)
      else if Op bio = ''write'' then blkio_loop rest (blkRead, blkWrite + Value bio)
      else blkio_loop rest (blkRead, blkWrite))"

text \<open>A gauge vector: the last value set for each pair of container id and name.\<close>

type_synonym GaugeVec = "string \<times> string \<rightharpoonup> float64"

record DockerMetrics =
  CPUUsageTotal :: GaugeVec
  MemoryUsage :: GaugeVec
  MemoryMaxUsage :: GaugeVec
  MemoryLimit :: GaugeVec
  MemoryCache :: GaugeVec
  MemoryRSS :: GaugeVec
  MemoryUsageOverall :: GaugeVec
  NetworkRxBytes :: GaugeVec
  NetworkTxBytes :: GaugeVec
  BlockIoReadBytes :: GaugeVec
  BlockIoWriteBytes :: GaugeVec

definition UpdateMetrics :: "DockerMetrics \<Rightarrow> StatsJSON \<Rightarrow> DockerMetrics" where
  "UpdateMetrics dm stats =
     (let label = (stats_ID stats, stats_Name stats);
          memoryUsage = float64_of (MemoryStats_Usage stats);
          memoryMaxUsage = float64_of (MemoryStats_MaxUsage stats);
          memoryLimit = float64_of (MemoryStats_Limit stats);
          memoryCache = float64_of (stat_at (MemoryStats_Stats stats) ''cache'');
          memoryRSS = float64_of (stat_at (MemoryStats_Stats stats) ''rss'');
          overallMemoryUsage = fsub memoryUsage memoryCache;
          net = network_loop (Networks stats) (0, 0);
          blk = blkio_loop (IoServiceBytesRecursive stats) (0, 0)
      in \<lparr>CPUUsageTotal = (CPUUsageTotal dm)(label \<mapsto> cpuPercent stats),
          MemoryUsage = (MemoryUsage dm)(label \<mapsto> memoryUsage),
          MemoryMaxUsage = (MemoryMaxUsage dm)(label \<mapsto> memoryMaxUsage),
          MemoryLimit = (MemoryLimit dm)(label \<mapsto> memoryLimit),
          MemoryCache = (MemoryCache dm)(label \<mapsto> memoryCache),
          MemoryRSS = (MemoryRSS dm)(label \<mapsto> memoryRSS),
          MemoryUsageOverall = (MemoryUsageOverall dm)(label \<mapsto> overallMemoryUsage),
          NetworkRxBytes = (NetworkRxBytes dm)(label \<mapsto> float64_of (fst net)),
          NetworkTxBytes = (NetworkTxBytes dm)(label \<mapsto> float64_of (snd net)),
          BlockIoReadBytes = (BlockIoReadBytes dm)(label \<mapsto> float64_of (fst blk)),
          BlockIoWriteBytes = (BlockIoWriteBytes dm)(label \<mapsto> float64_of (snd blk))\<rparr>)"

section \<open>The HTTP handlers of the main package\<close>

text \<open>
  How the handling of one request ends: with a response (status and body), with the
  metrics exposition served by the Prometheus handler, with the exit of the process
  (\<^verbatim>\<open>log.Fatalf\<close> logs the message and calls \<^verbatim>\<open>os.Exit\<close>; the request gets no response), with
  a panic of the handler, or never (the handler blocks for good).
\<close>

datatype response =
  Responded nat string
  | ServedMetrics
  | ProcessExit string
  | Aborted string
  | NoResponse

definition newline :: string where
  "newline = [CHR 0x0A]"

subsection \<open>GenerateMetrics\<close>

text \<open>
  What one fan-out task meets: \<^verbatim>\<open>ContainerStats\<close> answers an error text, or a body of which
  \<^verbatim>\<open>io.ReadAll\<close> may report an error, of which \<^verbatim>\<open>json.Unmarshal\<close> may report an error, and
  which leaves the decoded sample. The answers are a parameter \<open>stats\<close>, by container id.
\<close>

record stats_response =
  read_error :: "string option"
  unmarshal_error :: "string option"
  decoded :: StatsJSON

datatype send = SendErr string | SendStats StatsJSON

text \<open>
  The sends of one task, in order. Only the first error branch returns; after a read
  error and after an unmarshal error the task goes on, so that it can send two errors
  and then the sample.
\<close>

definition stats_task :: "(string \<Rightarrow> string + stats_response) \<Rightarrow> string \<Rightarrow> send list" where
  "stats_task stats containerID =
     (case stats containerID of
        Inl err \<Rightarrow>
          [SendErr (''could not fetch stats for container '' @ containerID @ '': '' @ err)]
      | Inr body \<Rightarrow>
          (case read_error body of
             None \<Rightarrow> []
           | Some err \<Rightarrow>
               [SendErr (''could not read stats for container '' @ containerID @ '': '' @ err)])
          @ (case unmarshal_error body of
               None \<Rightarrow> []
             | Some err \<Rightarrow>
                 [SendErr (''could not unmarshal stats for container '' @ containerID @ '': ''
                           @ err)])
          @ [SendStats (decoded body)])"

text \<open>
  The two channels are buffered with the number of containers as capacity. The error
  channel is not received from before the sample channel is closed, and that is closed
  only after every task is done: a send to the full error channel blocks for good, and
  the task never ends. Whether some task blocks, and which messages the channels hold
  when none does, does not depend on how the tasks interleave; the tasks are run here
  one after the other. A task that blocks leaves the others running.
\<close>

record channels =
  statsChan :: "StatsJSON list"
  errChan :: "string list"

fun run_task :: "nat \<Rightarrow> send list \<Rightarrow> channels \<Rightarrow> channels \<times> bool" where
  "run_task cap [] ch = (ch, True)"
| "run_task cap (SendErr msg # rest) ch =
     (if length (errChan ch) < cap then run_task cap rest (ch\<lparr>errChan := errChan ch @ [msg]\<rparr>)
      else (ch, False))"
| "run_task cap (SendStats statsJSON # rest) ch =
     (if length (statsChan ch) < cap
      then run_task cap rest (ch\<lparr>statsChan := statsChan ch @ [statsJSON]\<rparr>)
      else (ch, False))"

fun run_tasks :: "nat \<Rightarrow> send list list \<Rightarrow> channels \<Rightarrow> channels \<times> bool" where
  "run_tasks cap [] ch = (ch, True)"
| "run_tasks cap (task # rest) ch =
     (case run_task cap task ch of
        (ch', finished) \<Rightarrow>
          (case run_tasks cap rest ch' of
             (ch'', finished') \<Rightarrow> (ch'', finished \<and> finished')))"

text \<open>\<^verbatim>\<open>fmt.Sprintf("%v", errorMsgs)\<close> of a string slice: the elements between brackets,
  separated by one space.\<close>

fun join_space :: "string list \<Rightarrow> string" where
  "join_space [] = []"
| "join_space [x] = x"
| "join_space (x # y # rest) = x @ '' '' @ join_space (y # rest)"

text \<open>
  The handler. The samples received from the sample channel are recorded before the
  error channel is looked at; when a task blocks the sample channel is never closed and
  the handler waits on it for good, after recording what was sent.
\<close>

definition GenerateMetrics ::
  "(string \<Rightarrow> string + stats_response) \<Rightarrow> 'e client \<Rightarrow> DockerMetrics \<Rightarrow> 'e world \<Rightarrow>
   response \<times> DockerMetrics \<times> 'e world"
where
  "GenerateMetrics stats cli dm w =
     (case ListAllContariners cli w of
        (Inl _, w') \<Rightarrow> (Responded 500 (''Could not list containers'' @ newline), dm, w')
      | (Inr containers, w') \<Rightarrow>
          (case run_tasks (length containers)
                  (map (\<lambda>container. stats_task stats (ID container)) containers)
                  \<lparr>statsChan = [], errChan = []\<rparr> of
             (ch, finished) \<Rightarrow>
               let dm' = foldl UpdateMetrics dm (statsChan ch)
               in if \<not> finished then (NoResponse, dm', w')
                  else if length (errChan ch) > 0
                  then (Responded 500
                          (''Errors occurred: ['' @ join_space (errChan ch) @ '']'' @ newline),
                        dm', w')
                  else (ServedMetrics, dm', w')))"

subsection \<open>reconcileContainers\<close>

text \<open>How a failure inside the handler of \<^verbatim>\<open>/update\<close> ends the request: every returned error
  is passed to \<^verbatim>\<open>log.Fatalf\<close>.\<close>

definition fatal :: "string \<Rightarrow> failure \<Rightarrow> response" where
  "fatal prefix x =
     (case x of
        Err msg \<Rightarrow> ProcessExit (prefix @ msg)
      | Fatal msg \<Rightarrow> ProcessExit msg
      | Panic msg \<Rightarrow> Aborted msg)"

text \<open>
  The state of the handler: the configuration \<^verbatim>\<open>cfg\<close> (read, not changed), the
  package-level variable \<^verbatim>\<open>containers\<close> of the configuration package, and the engine.
\<close>

definition reconcileContainers ::
  "(string \<Rightarrow> string \<Rightarrow> string + Port) \<Rightarrow> 'e client \<Rightarrow> Config \<Rightarrow> ContainerConfig list \<Rightarrow>
   'e world \<Rightarrow> response \<times> ContainerConfig list \<times> 'e world"
where
  "reconcileContainers NewPort cli cfg packageContainers w =
     (case ConfigToDockerConfig NewPort cfg packageContainers of
        (Inl err, packageContainers') \<Rightarrow>
          (ProcessExit (''Error converting config to Docker config: '' @ err),
           packageContainers', w)
      | (Inr containers, packageContainers') \<Rightarrow>
          (case (if RemoveUnwantedContainers (AppConfig cfg)
                 then removeUnwantedContainers cli containers w
                 else (Inr (), w)) of
             (Inl x, w1) \<Rightarrow>
               (fatal ''Error when removing unwanted containers: '' x, packageContainers', w1)
           | (Inr _, w1) \<Rightarrow>
               (case ensureContainers cli containers (UpdateCheck (AppConfig cfg)) w1 of
                  (Inl x, w2) \<Rightarrow>
                    (fatal ''Error ensuring containers: '' x, packageContainers', w2)
                | (Inr _, w2) \<Rightarrow>
                    (Responded 200 (''Containers reconciled'' @ newline),
                     packageContainers', w2))))"

subsection \<open>updateConfig and reloadConfig\<close>

text \<open>\<^verbatim>\<open>config.Read()\<close> reads and parses the file; what it answers is the parameter \<open>read\<close>.
  The state is the variable \<^verbatim>\<open>cfg\<close>.\<close>

definition updateConfig :: "string + Config \<Rightarrow> Config \<Rightarrow> (string + unit) \<times> Config" where
  "updateConfig read cfg =
     (case read of
        Inl err \<Rightarrow> (Inl (''error reading config: '' @ err), cfg)
      | Inr newcfg \<Rightarrow> (Inr (), newcfg))"

definition reloadConfig :: "string + Config \<Rightarrow> Config \<Rightarrow> response \<times> Config" where
  "reloadConfig read cfg =
     (case updateConfig read cfg of
        (Inl err, cfg') \<Rightarrow> (ProcessExit (''Error reloading config: '' @ err), cfg')
      | (Inr _, cfg') \<Rightarrow> (Responded 200 (''Config reloaded'' @ newline), cfg'))"

section \<open>A small engine for concrete runs\<close>

text \<open>
  An in-memory engine on which the program is run at concrete inputs. It keeps the
  containers, the local image index, what the registry holds for each reference (the
  image identifier and the tag under which a pull stores it locally), and the
  identifiers it will hand out. Stopping a stopped container succeeds; stopping,
  removing, starting or inspecting a container that does not exist is an error;
  creating needs a free name and a local image; a pull moves the tag to the image the
  registry holds.
\<close>

record sim_container =
  sc_ID :: string
  sc_Name :: string
  sc_Config :: container_Config
  sc_PortBindings :: PortMap
  sc_ImageID :: string
  sc_Running :: bool

record sim_engine =
  sim_containers :: "sim_container list"
  sim_images :: "image_Summary list"
  sim_registry :: "(string \<times> string \<times> string) list"
  sim_fresh :: "string list"

definition sim_list :: "sim_engine \<Rightarrow> (string + Container list) \<times> sim_engine" where
  "sim_list e =
     (Inr (map (\<lambda>c. \<lparr>ID = sc_ID c, Names = [''/'' @ sc_Name c]\<rparr>) (sim_containers e)), e)"

definition sim_inspect :: "string \<Rightarrow> sim_engine \<Rightarrow> (string + ContainerJSON) \<times> sim_engine" where
  "sim_inspect cid e =
     (case find (\<lambda>c. sc_ID c = cid) (sim_containers e) of
        None \<Rightarrow> (Inl (''No such container: '' @ cid), e)
      | Some c \<Rightarrow>
          (Inr \<lparr>inspect_Image = sc_ImageID c, inspect_Config = sc_Config c,
                HostConfig_PortBindings = sc_PortBindings c\<rparr>, e))"

definition sim_create :: "create_request \<Rightarrow> sim_engine \<Rightarrow> (string + unit) \<times> sim_engine" where
  "sim_create req e =
     (if list_ex (\<lambda>c. sc_Name c = create_Name req) (sim_containers e)
      then (Inl (''Conflict. The container name is already in use: '' @ create_Name req), e)
      else
        (case find (\<lambda>i. Config_Image (create_Config req) \<in> set (RepoTags i))
                (sim_images e) of
           None \<Rightarrow> (Inl (''No such image: '' @ Config_Image (create_Config req)), e)
         | Some img \<Rightarrow>
             (case sim_fresh e of
                [] \<Rightarrow> (Inl ''no identifier left'', e)
              | cid # rest \<Rightarrow>
                  (Inr (),
                   e\<lparr>sim_containers := sim_containers e @
                        [\<lparr>sc_ID = cid, sc_Name = create_Name req, sc_Config = create_Config req,
                          sc_PortBindings = create_PortBindings req,
                          sc_ImageID = image_ID img, sc_Running = False\<rparr>],
                     sim_fresh := rest\<rparr>))))"

definition sim_set_running :: "bool \<Rightarrow> string \<Rightarrow> sim_engine \<Rightarrow> (string + unit) \<times> sim_engine" where
  "sim_set_running b cid e =
     (if list_ex (\<lambda>c. sc_ID c = cid) (sim_containers e)
      then (Inr (),
            e\<lparr>sim_containers :=
                map (\<lambda>c. if sc_ID c = cid then c\<lparr>sc_Running := b\<rparr> else c) (sim_containers e)\<rparr>)
      else (Inl (''No such container: '' @ cid), e))"

definition sim_remove :: "string \<Rightarrow> sim_engine \<Rightarrow> (string + unit) \<times> sim_engine" where
  "sim_remove cid e =
     (case find (\<lambda>c. sc_ID c = cid) (sim_containers e) of
        None \<Rightarrow> (Inl (''No such container: '' @ cid), e)
      | Some c \<Rightarrow>
          if sc_Running c
          then (Inl (''cannot remove a running container: '' @ cid), e)
          else (Inr (), e\<lparr>sim_containers := filter (\<lambda>c. sc_ID c \<noteq> cid) (sim_containers e)\<rparr>))"

definition retag :: "string \<Rightarrow> string \<Rightarrow> image_Summary list \<Rightarrow> image_Summary list" where
  "retag ref iid images =
     (let moved =
            map (\<lambda>i. if image_ID i = iid
                      then i\<lparr>RepoTags :=
                             (if ref \<in> set (RepoTags i) then RepoTags i
                              else RepoTags i @ [ref])\<rparr>
                      else i\<lparr>RepoTags := removeAll ref (RepoTags i)\<rparr>) images
      in if list_ex (\<lambda>i. image_ID i = iid) images then moved
         else moved @ [\<lparr>image_ID = iid, RepoTags = [ref]\<rparr>])"

definition sim_pull :: "string \<Rightarrow> sim_engine \<Rightarrow> (string + unit) \<times> sim_engine" where
  "sim_pull ref e =
     (case map_of (sim_registry e) ref of
        None \<Rightarrow> (Inl (''pull access denied for '' @ ref), e)
      | Some (iid, tag) \<Rightarrow> (Inr (), e\<lparr>sim_images := retag tag iid (sim_images e)\<rparr>))"

definition sim_image_list :: "sim_engine \<Rightarrow> (string + image_Summary list) \<times> sim_engine" where
  "sim_image_list e = (Inr (sim_images e), e)"

definition sim_client :: "sim_engine client" where
  "sim_client =
     \<lparr>ContainerList = sim_list,
      ContainerInspect = sim_inspect,
      ContainerCreate = sim_create,
      ContainerStart = sim_set_running True,
      ContainerStop = sim_set_running False,
      ContainerRemove = sim_remove,
      ImagePull = sim_pull,
      ImageList = sim_image_list\<rparr>"

section \<open>Observing a run\<close>

text \<open>The calls issued between two worlds of one run.\<close>

definition new_calls :: "'e world \<Rightarrow> 'e world \<Rightarrow> call list" where
  "new_calls w w' = drop (length (calls w)) (calls w')"

text \<open>The identifiers of the stop calls and of the remove calls of a trace, in order.\<close>

fun stop_ids :: "call list \<Rightarrow> string list" where
  "stop_ids [] = []"
| "stop_ids (StopCall cid # rest) = cid # stop_ids rest"
| "stop_ids (_ # rest) = stop_ids rest"

fun remove_ids :: "call list \<Rightarrow> string list" where
  "remove_ids [] = []"
| "remove_ids (RemoveCall cid # rest) = cid # remove_ids rest"
| "remove_ids (_ # rest) = remove_ids rest"

text \<open>The calls only the freshness check issues: the pull and the listing of images.\<close>

fun freshness_call :: "call \<Rightarrow> bool" where
  "freshness_call (PullCall _) = True"
| "freshness_call ImageListCall = True"
| "freshness_call _ = False"

text \<open>A program none of whose runs issues a call of the freshness check; every run
  only adds calls to the record.\<close>

definition quiet :: "('a, 'e) prog \<Rightarrow> bool" where
  "quiet m = (\<forall>w. \<exists>new. calls (snd (m w)) = calls w @ new \<and> filter freshness_call new = [])"

text \<open>
  An observed container is desired when its name, \<^verbatim>\<open>Names[0]\<close> without the leading slash,
  is the name of one of the desired specs; the others are the unwanted ones, in the
  order the engine lists them.
\<close>

definition desired :: "ContainerConfig list \<Rightarrow> Container \<Rightarrow> bool" where
  "desired configs container =
     (\<exists>config \<in> set configs.
        Names container \<noteq> [] \<and> hd (Names container) = ''/'' @ Name config)"

definition unwanted :: "ContainerConfig list \<Rightarrow> Container list \<Rightarrow> Container list" where
  "unwanted configs observed = filter (\<lambda>container. \<not> desired configs container) observed"

text \<open>The error messages and the samples among the sends of the tasks, in order.\<close>

fun sent_errors :: "send list \<Rightarrow> string list" where
  "sent_errors [] = []"
| "sent_errors (SendErr msg # rest) = msg # sent_errors rest"
| "sent_errors (SendStats _ # rest) = sent_errors rest"

fun sent_samples :: "send list \<Rightarrow> StatsJSON list" where
  "sent_samples [] = []"
| "sent_samples (SendErr _ # rest) = sent_samples rest"
| "sent_samples (SendStats statsJSON # rest) = statsJSON # sent_samples rest"

section \<open>Concrete inputs\<close>

definition pb_8090 :: cfg_PortBinding where
  "pb_8090 = \<lparr>cfg_Port = ''80'', cfg_Protocol = ''tcp'', cfg_HostIP = ''0.0.0.0'',
              cfg_HostPort = ''8090''\<rparr>"

definition pb_9090 :: cfg_PortBinding where
  "pb_9090 = \<lparr>cfg_Port = ''80'', cfg_Protocol = ''tcp'', cfg_HostIP = ''127.0.0.1'',
              cfg_HostPort = ''9090''\<rparr>"

text \<open>The configuration of the README: one container \<^verbatim>\<open>web\<close> running \<^verbatim>\<open>nginx:latest\<close>.\<close>

definition web_config :: Config where
  "web_config =
     \<lparr>AppConfig = \<lparr>Debug = True, UpdateCheck = True, RemoveUnwantedContainers = True\<rparr>,
      Containers =
        [\<lparr>cfg_Image = ''nginx:latest'', cfg_Name = ''web'', cfg_PortBindings = [pb_8090],
          cfg_Env = Some [''key1=value1''], cfg_Cmd = None\<rparr>]\<rparr>"

definition web_spec :: ContainerConfig where
  "web_spec =
     \<lparr>Image = ''nginx:latest'', Name = ''web'',
      ExposedPorts = Some {''80/tcp''},
      PortBindings = Some [''80/tcp'' \<mapsto> Some [\<lparr>HostIP = ''0.0.0.0'', HostPort = ''8090''\<rparr>]],
      Env = Some [''key1=value1''], Cmd = None\<rparr>"

text \<open>The same container with a second binding for port 80 over tcp.\<close>

definition dup_config :: Config where
  "dup_config =
     \<lparr>AppConfig = \<lparr>Debug = True, UpdateCheck = True, RemoveUnwantedContainers = True\<rparr>,
      Containers =
        [\<lparr>cfg_Image = ''nginx:latest'', cfg_Name = ''web'',
          cfg_PortBindings = [pb_8090, pb_9090],
          cfg_Env = Some [''key1=value1''], cfg_Cmd = None\<rparr>]\<rparr>"

definition dup_spec :: ContainerConfig where
  "dup_spec =
     \<lparr>Image = ''nginx:latest'', Name = ''web'',
      ExposedPorts = Some {''80/tcp''},
      PortBindings = Some [''80/tcp'' \<mapsto> Some [\<lparr>HostIP = ''127.0.0.1'', HostPort = ''9090''\<rparr>]],
      Env = Some [''key1=value1''], Cmd = None\<rparr>"

text \<open>
  Containers of the small engine. \<^verbatim>\<open>web\<close> as the engine reports it after a creation from
  \<open>web_spec\<close>: the engine has added a variable to the environment and reports the command
  of the image. \<^verbatim>\<open>web\<close> again with another host port, and a container \<^verbatim>\<open>db\<close> that no
  configuration declares.
\<close>

definition nginx_config :: container_Config where
  "nginx_config =
     \<lparr>Config_Image = ''nginx:latest'', Config_ExposedPorts = Some {''80/tcp''},
      Config_Env = Some [''key1=value1'', ''PATH=/usr/sbin:/usr/bin''],
      Config_Cmd = Some [''nginx'', ''-g'', ''daemon off;'']\<rparr>"

definition web_container :: sim_container where
  "web_container =
     \<lparr>sc_ID = ''c1'', sc_Name = ''web'', sc_Config = nginx_config,
      sc_PortBindings = Some [''80/tcp'' \<mapsto> Some [\<lparr>HostIP = ''0.0.0.0'', HostPort = ''8090''\<rparr>]],
      sc_ImageID = ''sha256:old'', sc_Running = True\<rparr>"

definition web_container_8080 :: sim_container where
  "web_container_8080 =
     \<lparr>sc_ID = ''c1'', sc_Name = ''web'', sc_Config = nginx_config,
      sc_PortBindings = Some [''80/tcp'' \<mapsto> Some [\<lparr>HostIP = ''0.0.0.0'', HostPort = ''8080''\<rparr>]],
      sc_ImageID = ''sha256:old'', sc_Running = True\<rparr>"

definition db_container :: sim_container where
  "db_container =
     \<lparr>sc_ID = ''c2'', sc_Name = ''db'',
      sc_Config = \<lparr>Config_Image = ''postgres:16'', Config_ExposedPorts = None,
                   Config_Env = None, Config_Cmd = None\<rparr>,
      sc_PortBindings = None, sc_ImageID = ''sha256:pg'', sc_Running = True\<rparr>"

text \<open>The registry holds a newer image for \<^verbatim>\<open>nginx:latest\<close> than the local index; a pull
  of the reference \<^verbatim>\<open>nginx\<close> is stored locally under the tag \<^verbatim>\<open>nginx:latest\<close>.\<close>

definition nginx_registry :: "(string \<times> string \<times> string) list" where
  "nginx_registry =
     [(''nginx:latest'', ''sha256:new'', ''nginx:latest''),
      (''nginx'', ''sha256:new'', ''nginx:latest'')]"

definition local_images :: "image_Summary list" where
  "local_images =
     [\<lparr>image_ID = ''sha256:old'', RepoTags = [''nginx:latest'']\<rparr>,
      \<lparr>image_ID = ''sha256:pg'', RepoTags = [''postgres:16'']\<rparr>]"

definition steady_engine :: sim_engine where
  "steady_engine =
     \<lparr>sim_containers = [web_container, db_container], sim_images = local_images,
      sim_registry = nginx_registry, sim_fresh = [''c3'', ''c4'']\<rparr>"

definition drift_engine :: sim_engine where
  "drift_engine =
     \<lparr>sim_containers = [web_container_8080], sim_images = local_images,
      sim_registry = nginx_registry, sim_fresh = [''c2'', ''c3'']\<rparr>"

definition bare_engine :: sim_engine where
  "bare_engine =
     \<lparr>sim_containers = [], sim_images = local_images,
      sim_registry = nginx_registry, sim_fresh = [''c1'']\<rparr>"

text \<open>The sample of a container that does no work: every counter is zero.\<close>

definition idle_stats :: StatsJSON where
  "idle_stats =
     \<lparr>stats_ID = ''c1'', stats_Name = ''/web'',
      CPUStats_TotalUsage = 0, PreCPUStats_TotalUsage = 0,
      CPUStats_SystemUsage = 0, PreCPUStats_SystemUsage = 0,
      CPUStats_PercpuUsage = [],
      MemoryStats_Usage = 0, MemoryStats_MaxUsage = 0, MemoryStats_Limit = 0,
      MemoryStats_Stats = Map.empty, Networks = [], IoServiceBytesRecursive = []\<rparr>"

text \<open>A stats answer whose body breaks off: reading it fails, and so does decoding what
  was read.\<close>

definition broken_stats :: "string \<Rightarrow> string + stats_response" where
  "broken_stats containerID =
     Inr \<lparr>read_error = Some ''unexpected EOF'',
          unmarshal_error = Some ''unexpected end of JSON input'',
          decoded = idle_stats\<lparr>stats_ID := [], stats_Name := []\<rparr>\<rparr>"

definition no_metrics :: DockerMetrics where
  "no_metrics =
     \<lparr>CPUUsageTotal = Map.empty, MemoryUsage = Map.empty, MemoryMaxUsage = Map.empty,
      MemoryLimit = Map.empty, MemoryCache = Map.empty, MemoryRSS = Map.empty,
      MemoryUsageOverall = Map.empty, NetworkRxBytes = Map.empty,
      NetworkTxBytes = Map.empty, BlockIoReadBytes = Map.empty,
      BlockIoWriteBytes = Map.empty\<rparr>"

text \<open>A configuration that declares one container of an image the engine does not hold
  locally, an engine client that cannot reach the engine, and stats answers: a sample
  of a working container for \<^verbatim>\<open>c1\<close>, a failing query for every other container.\<close>

definition redis_config :: Config where
  "redis_config =
     \<lparr>AppConfig = \<lparr>Debug = False, UpdateCheck = False, RemoveUnwantedContainers = False\<rparr>,
      Containers =
        [\<lparr>cfg_Image = ''redis:7'', cfg_Name = ''cache'', cfg_PortBindings = [],
          cfg_Env = None, cfg_Cmd = None\<rparr>]\<rparr>"

definition down_client :: "sim_engine client" where
  "down_client =
     sim_client\<lparr>ContainerList := (\<lambda>e. (Inl ''Cannot connect to the Docker daemon'', e))\<rparr>"

definition busy_stats :: StatsJSON where
  "busy_stats =
     \<lparr>stats_ID = ''c1'', stats_Name = ''/web'',
      CPUStats_TotalUsage = 200, PreCPUStats_TotalUsage = 100,
      CPUStats_SystemUsage = 2000, PreCPUStats_SystemUsage = 1000,
      CPUStats_PercpuUsage = [120, 80],
      MemoryStats_Usage = 4096, MemoryStats_MaxUsage = 8192, MemoryStats_Limit = 65536,
      MemoryStats_Stats = [''cache'' \<mapsto> 1024, ''rss'' \<mapsto> 2048],
      Networks = [\<lparr>RxBytes = 10, TxBytes = 20\<rparr>],
      IoServiceBytesRecursive = [\<lparr>Op = ''read'', Value = 5\<rparr>, \<lparr>Op = ''write'', Value = 7\<rparr>]\<rparr>"

definition half_stats :: "string \<Rightarrow> string + stats_response" where
  "half_stats containerID =
     (if containerID = ''c1''
      then Inr \<lparr>read_error = None, unmarshal_error = None, decoded = busy_stats\<rparr>
      else Inl ''context deadline exceeded'')"

section \<open>Properties of the configuration conversion\<close>

lemma portMap_loop_last:
  "portMap_loop NewPort pbs m = Inr m' \<Longrightarrow>
   m' k = (case filter (\<lambda>pb. NewPort (cfg_Protocol pb) (cfg_Port pb) = Inr k) pbs of
             [] \<Rightarrow> m k
           | ms \<Rightarrow> Some (Some [\<lparr>HostIP = cfg_HostIP (last ms), HostPort = cfg_HostPort (last ms)\<rparr>]))"
proof (induction pbs arbitrary: m)
  case Nil
  then show ?case by simp
next
  case (Cons pb pbs)
  then show ?case
    by (auto split: sum.splits list.splits if_splits)
qed

lemma containers_loop_result:
  "containers_loop NewPort cs g = (Inr u, g') \<Longrightarrow>
   length g' = length g + length cs \<and> take (length g) g' = g \<and>
   (\<forall>i < length cs. \<exists>ps pm.
      portSet_loop NewPort (cfg_PortBindings (cs ! i)) {} = Inr ps \<and>
      portMap_loop NewPort (cfg_PortBindings (cs ! i)) Map.empty = Inr pm \<and>
      g' ! (length g + i) =
        \<lparr>Image = cfg_Image (cs ! i), Name = cfg_Name (cs ! i),
         ExposedPorts = Some ps, PortBindings = Some pm,
         Env = cfg_Env (cs ! i), Cmd = cfg_Cmd (cs ! i)\<rparr>)"
proof (induction cs arbitrary: g)
  case Nil
  then show ?case by simp
next
  case (Cons c cs)
  from Cons.prems obtain ps pm where
    ps: "portSet_loop NewPort (cfg_PortBindings c) {} = Inr ps" and
    pm: "portMap_loop NewPort (cfg_PortBindings c) Map.empty = Inr pm" and
    rec: "containers_loop NewPort cs
            (g @ [\<lparr>Image = cfg_Image c, Name = cfg_Name c, ExposedPorts = Some ps,
                   PortBindings = Some pm, Env = cfg_Env c, Cmd = cfg_Cmd c\<rparr>]) = (Inr u, g')"
    by (auto split: sum.splits)
  let ?s = "\<lparr>Image = cfg_Image c, Name = cfg_Name c, ExposedPorts = Some ps,
             PortBindings = Some pm, Env = cfg_Env c, Cmd = cfg_Cmd c\<rparr>"
  from Cons.IH[OF rec] have
    len: "length g' = length (g @ [?s]) + length cs" and
    tk: "take (length (g @ [?s])) g' = g @ [?s]" and
    ih: "\<forall>i < length cs. \<exists>ps' pm'.
      portSet_loop NewPort (cfg_PortBindings (cs ! i)) {} = Inr ps' \<and>
      portMap_loop NewPort (cfg_PortBindings (cs ! i)) Map.empty = Inr pm' \<and>
      g' ! (length (g @ [?s]) + i) =
        \<lparr>Image = cfg_Image (cs ! i), Name = cfg_Name (cs ! i),
         ExposedPorts = Some ps', PortBindings = Some pm',
         Env = cfg_Env (cs ! i), Cmd = cfg_Cmd (cs ! i)\<rparr>"
    by blast+
  have tk_g: "take (length g) g' = g"
  proof -
    have "take (length g) (take (length (g @ [?s])) g') = take (length g) g'"
      by (simp add: min_def)
    with tk show ?thesis by simp
  qed
  have at_g: "g' ! length g = ?s"
  proof -
    have "g' ! length g = take (length (g @ [?s])) g' ! length g"
      by simp
    also have "\<dots> = (g @ [?s]) ! length g" using tk by simp
    finally show ?thesis by simp
  qed
  show ?case
  proof (intro conjI allI impI)
    show "length g' = length g + length (c # cs)" using len by simp
    show "take (length g) g' = g" by (rule tk_g)
  next
    fix i assume i: "i < length (c # cs)"
    show "\<exists>ps pm.
      portSet_loop NewPort (cfg_PortBindings ((c # cs) ! i)) {} = Inr ps \<and>
      portMap_loop NewPort (cfg_PortBindings ((c # cs) ! i)) Map.empty = Inr pm \<and>
      g' ! (length g + i) =
        \<lparr>Image = cfg_Image ((c # cs) ! i), Name = cfg_Name ((c # cs) ! i),
         ExposedPorts = Some ps, PortBindings = Some pm,
         Env = cfg_Env ((c # cs) ! i), Cmd = cfg_Cmd ((c # cs) ! i)\<rparr>"
    proof (cases i)
      case 0
      then show ?thesis using ps pm at_g by simp
    next
      case (Suc j)
      with i have "j < length cs" by simp
      with ih Suc show ?thesis by simp
    qed
  qed
qed

lemma ConfigToDockerConfig_web:
  "ConfigToDockerConfig slashPort web_config g = (Inr (g @ [web_spec]), g @ [web_spec])"
  by (simp add: ConfigToDockerConfig_def web_config_def web_spec_def slashPort_def pb_8090_def)

lemma ConfigToDockerConfig_dup:
  "ConfigToDockerConfig slashPort dup_config [] = (Inr [dup_spec], [dup_spec])"
  by (simp add: ConfigToDockerConfig_def dup_config_def dup_spec_def slashPort_def
      pb_8090_def pb_9090_def)

lemma reconcileContainers_package_variable:
  "fst (snd (reconcileContainers NewPort cli cfg g w)) = snd (ConfigToDockerConfig NewPort cfg g)"
  by (auto simp: reconcileContainers_def split: prod.splits sum.splits)

text \<open>
  Claim C2. The list handed to a pass is not built fresh: \<^verbatim>\<open>ConfigToDockerConfig\<close> appends to
  the package-level variable. With the configuration of one container \<^verbatim>\<open>web\<close>, the first
  call answers the one spec, and the second call with the same configuration answers
  that spec twice; so does the handler of a second reconciliation trigger, which finds
  the spec of the first trigger in the variable.
\<close>

theorem C2_second_call_doubles:
  "fst (ConfigToDockerConfig slashPort web_config []) = Inr [web_spec] \<and>
   fst (ConfigToDockerConfig slashPort web_config
          (snd (ConfigToDockerConfig slashPort web_config []))) = Inr [web_spec, web_spec] \<and>
   fst (snd (reconcileContainers slashPort sim_client web_config []
               \<lparr>engine = steady_engine, calls = []\<rparr>)) = [web_spec] \<and>
   fst (snd (reconcileContainers slashPort sim_client web_config [web_spec]
               \<lparr>engine = steady_engine, calls = []\<rparr>)) = [web_spec, web_spec]"
  by (simp add: ConfigToDockerConfig_web reconcileContainers_package_variable)

text \<open>
  Claim C10. When the conversion succeeds, the spec built for the \<open>i\<close>-th declared
  container maps every port key \<open>k\<close> that one or more of its \<^verbatim>\<open>port_bindings\<close> entries
  yield to a one-element list: the host address and host port of the last such entry.
  The entries before it leave no trace under that key.
\<close>

theorem C10_last_binding_wins:
  assumes "ConfigToDockerConfig NewPort config g = (Inr specs, g')"
    and "i < length (Containers config)"
    and "filter (\<lambda>pb. NewPort (cfg_Protocol pb) (cfg_Port pb) = Inr k)
           (cfg_PortBindings (Containers config ! i)) = ms"
    and "ms \<noteq> []"
  shows "\<exists>m. PortBindings (specs ! (length g + i)) = Some m \<and>
             m k = Some (Some [\<lparr>HostIP = cfg_HostIP (last ms), HostPort = cfg_HostPort (last ms)\<rparr>])"
proof -
  from assms(1) have loop: "containers_loop NewPort (Containers config) g = (Inr (), specs)"
    by (auto simp: ConfigToDockerConfig_def split: prod.splits sum.splits)
  from containers_loop_result[OF loop] assms(2) obtain ps pm where
    pm: "portMap_loop NewPort (cfg_PortBindings (Containers config ! i)) Map.empty = Inr pm" and
    at: "specs ! (length g + i) =
          \<lparr>Image = cfg_Image (Containers config ! i), Name = cfg_Name (Containers config ! i),
           ExposedPorts = Some ps, PortBindings = Some pm,
           Env = cfg_Env (Containers config ! i), Cmd = cfg_Cmd (Containers config ! i)\<rparr>"
    by blast
  from portMap_loop_last[OF pm, of k] assms(3,4)
  have "pm k = Some (Some [\<lparr>HostIP = cfg_HostIP (last ms), HostPort = cfg_HostPort (last ms)\<rparr>])"
    by (cases ms) auto
  with at show ?thesis by simp
qed

theorem C10_last_binding_wins_witness:
  "filter (\<lambda>pb. slashPort (cfg_Protocol pb) (cfg_Port pb) = Inr ''80/tcp'')
     (cfg_PortBindings (Containers dup_config ! 0)) = [pb_8090, pb_9090] \<and>
   (\<exists>m. PortBindings ([dup_spec] ! 0) = Some m \<and>
        m ''80/tcp'' = Some (Some [\<lparr>HostIP = ''127.0.0.1'', HostPort = ''9090''\<rparr>]))"
proof -
  have f: "filter (\<lambda>pb. slashPort (cfg_Protocol pb) (cfg_Port pb) = Inr ''80/tcp'')
     (cfg_PortBindings (Containers dup_config ! 0)) = [pb_8090, pb_9090]"
    by (simp add: dup_config_def slashPort_def pb_8090_def pb_9090_def)
  have i: "0 < length (Containers dup_config)"
    by (simp add: dup_config_def)
  have n: "[pb_8090, pb_9090] \<noteq> []" by simp
  from C10_last_binding_wins[OF ConfigToDockerConfig_dup i f n] f
  show ?thesis by (simp add: pb_9090_def)
qed

section \<open>Properties of the engine functions\<close>

lemmas prog_defs = andThen_def engine_call_def ret_def lift_def fatal_on_error_def
  DeleteContainer_def CreateContainer_def EnsureRunningContainers_def
  GetContainerIDByName_def ListAllContariners_def isContainerUpToDate_def
  ensureContainerConfig_def ensureContainers_body_def ensureContainers_def
  removeUnwantedContainers_def create_request_of_def

lemmas sim_defs = sim_client_def sim_list_def sim_inspect_def sim_create_def
  sim_set_running_def sim_remove_def sim_pull_def sim_image_list_def retag_def

lemmas sample_defs = web_spec_def nginx_config_def web_container_def
  web_container_8080_def db_container_def nginx_registry_def local_images_def
  steady_engine_def drift_engine_def bare_engine_def

lemma upd_neq: "a \<noteq> b \<Longrightarrow> m(k \<mapsto> a) \<noteq> n(k \<mapsto> b)"
  by (auto dest: fun_upd_eqD)

lemmas eval_defs = prog_defs sim_defs sample_defs needsUpdate_def Let_def upd_neq

lemma stop_ids_append [simp]: "stop_ids (xs @ ys) = stop_ids xs @ stop_ids ys"
  by (induction xs rule: stop_ids.induct) auto

lemma remove_ids_append [simp]: "remove_ids (xs @ ys) = remove_ids xs @ remove_ids ys"
  by (induction xs rule: remove_ids.induct) auto

lemma new_calls_append [simp]: "calls w' = calls w @ new \<Longrightarrow> new_calls w w' = new"
  by (simp add: new_calls_def)

lemma DeleteContainer_eq:
  "DeleteContainer cli cid w =
     (case ContainerStop cli cid (engine w) of
        (Inl msg, e1) \<Rightarrow> (Inl (Err msg), \<lparr>engine = e1, calls = calls w @ [StopCall cid]\<rparr>)
      | (Inr _, e1) \<Rightarrow>
          (case ContainerRemove cli cid e1 of
             (Inl msg, e2) \<Rightarrow>
               (Inl (Err msg), \<lparr>engine = e2, calls = calls w @ [StopCall cid, RemoveCall cid]\<rparr>)
           | (Inr _, e2) \<Rightarrow>
               (Inr (), \<lparr>engine = e2, calls = calls w @ [StopCall cid, RemoveCall cid]\<rparr>)))"
  by (simp add: DeleteContainer_def andThen_def engine_call_def ret_def
      split: prod.splits sum.splits)

lemma DeleteContainer_calls:
  "calls (snd (DeleteContainer cli cid w)) = calls w @ [StopCall cid] \<or>
   calls (snd (DeleteContainer cli cid w)) = calls w @ [StopCall cid, RemoveCall cid]"
  by (simp add: DeleteContainer_eq split: prod.splits sum.splits)

lemma DeleteContainer_ok_calls:
  "DeleteContainer cli cid w = (Inr u, w') \<Longrightarrow>
   calls w' = calls w @ [StopCall cid, RemoveCall cid]"
  by (auto simp: DeleteContainer_eq split: prod.splits sum.splits)

subsection \<open>removeUnwantedContainers\<close>

lemma configs_loop_desired:
  "configs_loop container configs = Inr found \<Longrightarrow> found = desired configs container"
  by (induction configs) (auto simp: desired_def split: list.splits if_splits)

lemma removeUnwanted_loop_ok:
  "removeUnwanted_loop cli configs cs w = (Inr u, w') \<Longrightarrow>
   calls w' = calls w @
     concat (map (\<lambda>c. [StopCall (ID c), RemoveCall (ID c)]) (unwanted configs cs))"
proof (induction cs arbitrary: w)
  case Nil
  then show ?case by (simp add: unwanted_def)
next
  case (Cons c cs)
  from Cons.prems obtain found where f: "configs_loop c configs = Inr found"
    by (auto split: sum.splits)
  hence d: "found = desired configs c" by (rule configs_loop_desired)
  show ?case
  proof (cases found)
    case True
    with f Cons.prems have "removeUnwanted_loop cli configs cs w = (Inr u, w')" by simp
    from Cons.IH[OF this] True d show ?thesis by (simp add: unwanted_def)
  next
    case False
    with f Cons.prems obtain w1 where
      del: "DeleteContainer cli (ID c) w = (Inr (), w1)" and
      rest: "removeUnwanted_loop cli configs cs w1 = (Inr u, w')"
      by (auto split: prod.splits sum.splits)
    from DeleteContainer_ok_calls[OF del] Cons.IH[OF rest] False d
    show ?thesis by (simp add: unwanted_def)
  qed
qed

lemma removeUnwanted_loop_prefix:
  "\<exists>new n m. calls (snd (removeUnwanted_loop cli configs cs w)) = calls w @ new \<and>
     stop_ids new = take n (map ID (unwanted configs cs)) \<and>
     remove_ids new = take m (map ID (unwanted configs cs))"
proof (induction cs arbitrary: w)
  case Nil
  then show ?case by simp
next
  case (Cons c cs)
  show ?case
  proof (cases "configs_loop c configs")
    case (Inl x)
    have "calls (snd (removeUnwanted_loop cli configs (c # cs) w)) = calls w @ [] \<and>
          stop_ids [] = take 0 (map ID (unwanted configs (c # cs))) \<and>
          remove_ids [] = take 0 (map ID (unwanted configs (c # cs)))"
      using Inl by simp
    then show ?thesis by blast
  next
    case (Inr found)
    hence d: "found = desired configs c" by (rule configs_loop_desired)
    show ?thesis
    proof (cases found)
      case True
      from Cons.IH[of w] obtain new n m where
        "calls (snd (removeUnwanted_loop cli configs cs w)) = calls w @ new"
        "stop_ids new = take n (map ID (unwanted configs cs))"
        "remove_ids new = take m (map ID (unwanted configs cs))" by blast
      with Inr True d have
        "calls (snd (removeUnwanted_loop cli configs (c # cs) w)) = calls w @ new \<and>
          stop_ids new = take n (map ID (unwanted configs (c # cs))) \<and>
          remove_ids new = take m (map ID (unwanted configs (c # cs)))"
        by (simp add: unwanted_def)
      then show ?thesis by blast
    next
      case False
      with d have u: "unwanted configs (c # cs) = c # unwanted configs cs"
        by (simp add: unwanted_def)
      obtain r w1 where del: "DeleteContainer cli (ID c) w = (r, w1)" by fastforce
      show ?thesis
      proof (cases r)
        case (Inl x)
        from DeleteContainer_calls[of cli "ID c" w] del
        consider "calls w1 = calls w @ [StopCall (ID c)]"
          | "calls w1 = calls w @ [StopCall (ID c), RemoveCall (ID c)]" by auto
        then show ?thesis
        proof cases
          case 1
          with Inr False del Inl u have
            "calls (snd (removeUnwanted_loop cli configs (c # cs) w)) =
               calls w @ [StopCall (ID c)] \<and>
             stop_ids [StopCall (ID c)] = take 1 (map ID (unwanted configs (c # cs))) \<and>
             remove_ids [StopCall (ID c)] = take 0 (map ID (unwanted configs (c # cs)))"
            by simp
          then show ?thesis by blast
        next
          case 2
          with Inr False del Inl u have
            "calls (snd (removeUnwanted_loop cli configs (c # cs) w)) =
               calls w @ [StopCall (ID c), RemoveCall (ID c)] \<and>
             stop_ids [StopCall (ID c), RemoveCall (ID c)] =
               take 1 (map ID (unwanted configs (c # cs))) \<and>
             remove_ids [StopCall (ID c), RemoveCall (ID c)] =
               take 1 (map ID (unwanted configs (c # cs)))"
            by simp
          then show ?thesis by blast
        qed
      next
        case (Inr a)
        with del have del': "DeleteContainer cli (ID c) w = (Inr (), w1)" by simp
        from DeleteContainer_ok_calls[OF del']
        have c1: "calls w1 = calls w @ [StopCall (ID c), RemoveCall (ID c)]" .
        from Cons.IH[of w1] obtain new n m where
          n: "calls (snd (removeUnwanted_loop cli configs cs w1)) = calls w1 @ new"
          "stop_ids new = take n (map ID (unwanted configs cs))"
          "remove_ids new = take m (map ID (unwanted configs cs))" by blast
        from \<open>configs_loop c configs = Inr found\<close> False del' n c1 u have
          "calls (snd (removeUnwanted_loop cli configs (c # cs) w)) =
               calls w @ ([StopCall (ID c), RemoveCall (ID c)] @ new) \<and>
             stop_ids ([StopCall (ID c), RemoveCall (ID c)] @ new) =
               take (Suc n) (map ID (unwanted configs (c # cs))) \<and>
             remove_ids ([StopCall (ID c), RemoveCall (ID c)] @ new) =
               take (Suc m) (map ID (unwanted configs (c # cs)))"
          by simp
        then show ?thesis by blast
      qed
    qed
  qed
qed

lemma desired_not_in_take:
  assumes "distinct (map ID observed)" "c \<in> set observed" "desired configs c"
  shows "ID c \<notin> set (take n (map ID (unwanted configs observed)))"
proof
  assume "ID c \<in> set (take n (map ID (unwanted configs observed)))"
  hence "ID c \<in> set (map ID (unwanted configs observed))" by (rule in_set_takeD)
  then obtain c' where c': "c' \<in> set observed" "\<not> desired configs c'" "ID c' = ID c"
    by (auto simp: unwanted_def)
  with assms(1,2) have "c' = c" by (meson distinct_map inj_onD)
  with c'(2) assms(3) show False by simp
qed

subsection \<open>Claims on the delete step and on the pruning\<close>

text \<open>
  Claim C5, as the code has it. The delete step tolerates nothing: it succeeds exactly
  when the engine's stop call and then its remove call both succeed. An error of the
  stop call, whatever its cause, is returned and the remove call is not issued; an
  error of the remove call is returned.
\<close>

theorem C5_delete_passes_errors_on:
  "(fst (DeleteContainer cli cid w) = Inr ()) =
     (\<exists>e1 e2. ContainerStop cli cid (engine w) = (Inr (), e1) \<and>
               ContainerRemove cli cid e1 = (Inr (), e2)) \<and>
   (\<forall>msg e1. ContainerStop cli cid (engine w) = (Inl msg, e1) \<longrightarrow>
      DeleteContainer cli cid w =
        (Inl (Err msg), \<lparr>engine = e1, calls = calls w @ [StopCall cid]\<rparr>)) \<and>
   (\<forall>msg e1 e2. ContainerStop cli cid (engine w) = (Inr (), e1) \<and>
      ContainerRemove cli cid e1 = (Inl msg, e2) \<longrightarrow>
      DeleteContainer cli cid w =
        (Inl (Err msg), \<lparr>engine = e2, calls = calls w @ [StopCall cid, RemoveCall cid]\<rparr>))"
  by (auto simp: DeleteContainer_eq split: prod.splits sum.splits)

text \<open>On the small engine: the stop of the running container \<^verbatim>\<open>c2\<close> and its removal succeed,
  and so does the delete step.\<close>

theorem C5_delete_passes_errors_on_witness:
  "fst (DeleteContainer sim_client ''c2'' \<lparr>engine = steady_engine, calls = []\<rparr>) = Inr () \<and>
   ContainerStop sim_client ''c2'' steady_engine =
     (Inr (), steady_engine\<lparr>sim_containers := [web_container, db_container\<lparr>sc_Running := False\<rparr>]\<rparr>) \<and>
   ContainerRemove sim_client ''c2''
       (steady_engine\<lparr>sim_containers := [web_container, db_container\<lparr>sc_Running := False\<rparr>]\<rparr>) =
     (Inr (), steady_engine\<lparr>sim_containers := [web_container]\<rparr>)"
proof -
  have s: "ContainerStop sim_client ''c2'' steady_engine =
     (Inr (), steady_engine\<lparr>sim_containers := [web_container, db_container\<lparr>sc_Running := False\<rparr>]\<rparr>)"
    by (simp add: sim_defs sample_defs)
  have r: "ContainerRemove sim_client ''c2''
       (steady_engine\<lparr>sim_containers := [web_container, db_container\<lparr>sc_Running := False\<rparr>]\<rparr>) =
     (Inr (), steady_engine\<lparr>sim_containers := [web_container]\<rparr>)"
    by (simp add: sim_defs sample_defs)
  from C5_delete_passes_errors_on[of sim_client "''c2''" "\<lparr>engine = steady_engine, calls = []\<rparr>"] s r
  have "fst (DeleteContainer sim_client ''c2'' \<lparr>engine = steady_engine, calls = []\<rparr>) = Inr ()"
    by simp
  with s r show ?thesis by simp
qed

text \<open>
  Claim C5 as stated fails: the engine has no container \<^verbatim>\<open>c9\<close>, before or after, and the
  delete step answers the engine's not-found error of the stop call.
\<close>

theorem C5_gone_container_counterexample:
  "DeleteContainer sim_client ''c9'' \<lparr>engine = bare_engine, calls = []\<rparr> =
     (Inl (Err ''No such container: c9''), \<lparr>engine = bare_engine, calls = [StopCall ''c9'']\<rparr>) \<and>
   sim_containers bare_engine = []"
  by (simp add: prog_defs sim_defs sample_defs)

text \<open>
  Claim C7. \<open>observed\<close> is what the engine lists at the start of the pruning. The stop
  calls and the remove calls the pruning issues are, in order, for an initial stretch
  of the unwanted containers; when the pruning returns without error its calls are the
  listing and then a stop and a remove for each unwanted container, no more and no
  less; with identifiers that tell the containers apart no desired container is
  stopped or removed. The unwanted containers depend on the names of the desired specs
  and on the observed containers only as sets, not on their order.
\<close>

theorem C7_prune:
  assumes "ContainerList cli (engine w) = (Inr observed, e1)"
  shows
    "(\<exists>n. stop_ids (new_calls w (snd (removeUnwantedContainers cli configs w))) =
          take n (map ID (unwanted configs observed))) \<and>
     (\<exists>m. remove_ids (new_calls w (snd (removeUnwantedContainers cli configs w))) =
          take m (map ID (unwanted configs observed))) \<and>
     (fst (removeUnwantedContainers cli configs w) = Inr () \<longrightarrow>
        new_calls w (snd (removeUnwantedContainers cli configs w)) =
          ListCall #
          concat (map (\<lambda>c. [StopCall (ID c), RemoveCall (ID c)]) (unwanted configs observed))) \<and>
     (distinct (map ID observed) \<longrightarrow>
        (\<forall>c \<in> set observed. desired configs c \<longrightarrow>
           ID c \<notin> set (stop_ids (new_calls w (snd (removeUnwantedContainers cli configs w)))) \<and>
           ID c \<notin> set (remove_ids (new_calls w (snd (removeUnwantedContainers cli configs w)))))) \<and>
     (set (map Name configs') = set (map Name configs) \<and> set observed' = set observed \<longrightarrow>
        set (unwanted configs' observed') = set (unwanted configs observed))"
proof -
  let ?w1 = "\<lparr>engine = e1, calls = calls w @ [ListCall]\<rparr>"
  have run: "removeUnwantedContainers cli configs w = removeUnwanted_loop cli configs observed ?w1"
    using assms by (simp add: prog_defs)
  obtain new n m where
    new: "calls (snd (removeUnwanted_loop cli configs observed ?w1)) = calls ?w1 @ new" and
    sn: "stop_ids new = take n (map ID (unwanted configs observed))" and
    rm: "remove_ids new = take m (map ID (unwanted configs observed))"
    using removeUnwanted_loop_prefix[of cli configs observed ?w1] by blast
  have nc: "new_calls w (snd (removeUnwantedContainers cli configs w)) = ListCall # new"
    using run new by (simp add: new_calls_def)
  have ok: "new = concat (map (\<lambda>c. [StopCall (ID c), RemoveCall (ID c)]) (unwanted configs observed))"
    if "fst (removeUnwantedContainers cli configs w) = Inr ()"
  proof -
    from that run obtain w' where
      "removeUnwanted_loop cli configs observed ?w1 = (Inr (), w')"
      by (metis prod.collapse)
    from removeUnwanted_loop_ok[OF this] new this show ?thesis by simp
  qed
  have names: "desired configs' c = desired configs c"
    if "set (map Name configs') = set (map Name configs)" for c
  proof -
    have char: "desired cs c =
        (Names c \<noteq> [] \<and> hd (Names c) \<in> (\<lambda>n. ''/'' @ n) ` (Name ` set cs))" for cs
      by (auto simp: desired_def)
    from that have eq: "Name ` set configs' = Name ` set configs" by simp
    show ?thesis unfolding char[of configs'] char[of configs] eq ..
  qed
  show ?thesis
  proof (intro conjI impI ballI)
    show "\<exists>n. stop_ids (new_calls w (snd (removeUnwantedContainers cli configs w))) =
          take n (map ID (unwanted configs observed))"
      using nc sn by auto
    show "\<exists>m. remove_ids (new_calls w (snd (removeUnwantedContainers cli configs w))) =
          take m (map ID (unwanted configs observed))"
      using nc rm by auto
    show "new_calls w (snd (removeUnwantedContainers cli configs w)) =
          ListCall #
          concat (map (\<lambda>c. [StopCall (ID c), RemoveCall (ID c)]) (unwanted configs observed))"
      if "fst (removeUnwantedContainers cli configs w) = Inr ()"
      using nc ok[OF that] by simp
  next
    fix c
    assume d: "distinct (map ID observed)" and c: "c \<in> set observed" and w: "desired configs c"
    show "ID c \<notin> set (stop_ids (new_calls w (snd (removeUnwantedContainers cli configs w))))"
      using nc sn desired_not_in_take[OF d c w, of n] by simp
    show "ID c \<notin> set (remove_ids (new_calls w (snd (removeUnwantedContainers cli configs w))))"
      using nc rm desired_not_in_take[OF d c w, of m] by simp
  next
    assume "set (map Name configs') = set (map Name configs) \<and> set observed' = set observed"
    then show "set (unwanted configs' observed') = set (unwanted configs observed)"
      using names by (auto simp: unwanted_def)
  qed
qed

text \<open>On the small engine with \<^verbatim>\<open>web\<close> desired: \<^verbatim>\<open>db\<close> is stopped and removed, \<^verbatim>\<open>web\<close> is not
  touched.\<close>

theorem C7_prune_witness:
  "ContainerList sim_client steady_engine =
     (Inr [\<lparr>ID = ''c1'', Names = [''/web'']\<rparr>, \<lparr>ID = ''c2'', Names = [''/db'']\<rparr>], steady_engine) \<and>
   unwanted [web_spec] [\<lparr>ID = ''c1'', Names = [''/web'']\<rparr>, \<lparr>ID = ''c2'', Names = [''/db'']\<rparr>] =
     [\<lparr>ID = ''c2'', Names = [''/db'']\<rparr>] \<and>
   fst (removeUnwantedContainers sim_client [web_spec] \<lparr>engine = steady_engine, calls = []\<rparr>) =
     Inr () \<and>
   new_calls \<lparr>engine = steady_engine, calls = []\<rparr>
     (snd (removeUnwantedContainers sim_client [web_spec] \<lparr>engine = steady_engine, calls = []\<rparr>)) =
     [ListCall, StopCall ''c2'', RemoveCall ''c2''] \<and>
   ''c1'' \<notin> set (remove_ids (new_calls \<lparr>engine = steady_engine, calls = []\<rparr>
     (snd (removeUnwantedContainers sim_client [web_spec] \<lparr>engine = steady_engine, calls = []\<rparr>))))"
proof -
  let ?obs = "[\<lparr>ID = ''c1'', Names = [''/web'']\<rparr>, \<lparr>ID = ''c2'', Names = [''/db'']\<rparr>]"
  let ?w = "\<lparr>engine = steady_engine, calls = []\<rparr>"
  have l: "ContainerList sim_client (engine ?w) = (Inr ?obs, steady_engine)"
    by (simp add: sim_defs sample_defs)
  have u: "unwanted [web_spec] ?obs = [\<lparr>ID = ''c2'', Names = [''/db'']\<rparr>]"
    by (simp add: unwanted_def desired_def web_spec_def)
  have ok: "fst (removeUnwantedContainers sim_client [web_spec] ?w) = Inr ()"
    by (simp add: prog_defs sim_defs sample_defs)
  have d: "distinct (map ID ?obs)" by simp
  have des: "desired [web_spec] \<lparr>ID = ''c1'', Names = [''/web'']\<rparr>"
    by (simp add: desired_def web_spec_def)
  from C7_prune[OF l, of "[web_spec]" "[web_spec]" ?obs] ok d des u l
  show ?thesis by simp
qed

subsection \<open>Claims on the comparator and on the freshness check\<close>





lemma tags_loop_eq:
  "tags_loop ref imgID tags latest = (if ref \<in> set tags then imgID else latest)"
  by (induction tags) auto

lemma images_loop_eq:
  "images_loop ref images latest =
     (if filter (\<lambda>img. ref \<in> set (RepoTags img)) images = [] then latest
      else image_ID (last (filter (\<lambda>img. ref \<in> set (RepoTags img)) images)))"
  by (induction images arbitrary: latest) (auto simp: tags_loop_eq)

lemma isContainerUpToDate_pulls:
  "ContainerInspect cli cid (engine w) = (Inr obs, e1) \<Longrightarrow>
   \<exists>rest. calls (snd (isContainerUpToDate cli cid D w)) =
     calls w @ [InspectCall cid, PullCall (Image D)] @ rest"
  by (auto simp: isContainerUpToDate_def andThen_def engine_call_def ret_def lift_def Let_def
      split: prod.splits sum.splits)

lemma isContainerUpToDate_verdict_calls:
  "isContainerUpToDate cli cid D w = (Inr b, w') \<Longrightarrow>
   calls w' = calls w @ [InspectCall cid, PullCall (Image D), ImageListCall]"
  by (auto simp: isContainerUpToDate_def andThen_def engine_call_def ret_def lift_def Let_def
      split: prod.splits sum.splits if_splits)

text \<open>
  Claim C8. Once the inspection of the container has succeeded the pull of the desired
  image is issued, whatever the local image index holds, and no verdict is returned
  without it. When the pull and the listing of the images succeed: with no image
  tagged with the desired reference the check answers an error, not a verdict; with
  one or more the verdict is the equality of the identifier of the running image with
  the identifier of the last such image of the listing (identifiers are not empty).
\<close>

theorem C8_freshness:
  "(ContainerInspect cli cid (engine w) = (Inr obs, e1) \<longrightarrow>
      PullCall (Image D) \<in> set (new_calls w (snd (isContainerUpToDate cli cid D w)))) \<and>
   (\<forall>b w'. isContainerUpToDate cli cid D w = (Inr b, w') \<longrightarrow>
      PullCall (Image D) \<in> set (new_calls w w')) \<and>
   (ContainerInspect cli cid (engine w) = (Inr obs, e1) \<and>
    ImagePull cli (Image D) e1 = (Inr (), e2) \<and>
    ImageList cli e2 = (Inr images, e3) \<longrightarrow>
      (filter (\<lambda>img. Image D \<in> set (RepoTags img)) images = [] \<longrightarrow>
         fst (isContainerUpToDate cli cid D w) =
           Inl (Err (''could not find the latest image for '' @ Image D))) \<and>
      (filter (\<lambda>img. Image D \<in> set (RepoTags img)) images \<noteq> [] \<and>
       image_ID (last (filter (\<lambda>img. Image D \<in> set (RepoTags img)) images)) \<noteq> [] \<longrightarrow>
         fst (isContainerUpToDate cli cid D w) =
           Inr (inspect_Image obs =
                image_ID (last (filter (\<lambda>img. Image D \<in> set (RepoTags img)) images)))))"
proof (intro conjI impI allI)
  assume "ContainerInspect cli cid (engine w) = (Inr obs, e1)"
  from isContainerUpToDate_pulls[OF this, of D]
  show "PullCall (Image D) \<in> set (new_calls w (snd (isContainerUpToDate cli cid D w)))"
    by (auto simp: new_calls_def)
next
  fix b w' assume "isContainerUpToDate cli cid D w = (Inr b, w')"
  from isContainerUpToDate_verdict_calls[OF this]
  show "PullCall (Image D) \<in> set (new_calls w w')"
    by (simp add: new_calls_def)
next
  assume a: "ContainerInspect cli cid (engine w) = (Inr obs, e1) \<and>
    ImagePull cli (Image D) e1 = (Inr (), e2) \<and> ImageList cli e2 = (Inr images, e3)"
  assume "filter (\<lambda>img. Image D \<in> set (RepoTags img)) images = []"
  with a show "fst (isContainerUpToDate cli cid D w) =
           Inl (Err (''could not find the latest image for '' @ Image D))"
    by (simp add: isContainerUpToDate_def andThen_def engine_call_def ret_def lift_def Let_def
        images_loop_eq)
next
  assume a: "ContainerInspect cli cid (engine w) = (Inr obs, e1) \<and>
    ImagePull cli (Image D) e1 = (Inr (), e2) \<and> ImageList cli e2 = (Inr images, e3)"
  assume "filter (\<lambda>img. Image D \<in> set (RepoTags img)) images \<noteq> [] \<and>
       image_ID (last (filter (\<lambda>img. Image D \<in> set (RepoTags img)) images)) \<noteq> []"
  with a show "fst (isContainerUpToDate cli cid D w) =
           Inr (inspect_Image obs =
                image_ID (last (filter (\<lambda>img. Image D \<in> set (RepoTags img)) images)))"
    by (simp add: isContainerUpToDate_def andThen_def engine_call_def ret_def lift_def Let_def
        images_loop_eq)
qed

text \<open>On the small engine: \<^verbatim>\<open>web\<close> runs the old image and the pull brings the new one, so
  the verdict is stale; for the reference \<^verbatim>\<open>nginx\<close>, which the pull stores under the tag
  \<^verbatim>\<open>nginx:latest\<close>, no image of the index matches and the check answers an error.\<close>

theorem C8_freshness_witness:
  "fst (isContainerUpToDate sim_client ''c1'' web_spec \<lparr>engine = steady_engine, calls = []\<rparr>) =
     Inr False \<and>
   PullCall ''nginx:latest'' \<in> set (new_calls \<lparr>engine = steady_engine, calls = []\<rparr>
     (snd (isContainerUpToDate sim_client ''c1'' web_spec \<lparr>engine = steady_engine, calls = []\<rparr>))) \<and>
   fst (isContainerUpToDate sim_client ''c1'' (web_spec\<lparr>Image := ''nginx''\<rparr>)
          \<lparr>engine = steady_engine, calls = []\<rparr>) =
     Inl (Err ''could not find the latest image for nginx'')"
proof -
  let ?w = "\<lparr>engine = steady_engine, calls = []\<rparr>"
  let ?obs = "\<lparr>inspect_Image = ''sha256:old'', inspect_Config = nginx_config,
               HostConfig_PortBindings = sc_PortBindings web_container\<rparr>"
  let ?images = "[\<lparr>image_ID = ''sha256:old'', RepoTags = []\<rparr>,
                  \<lparr>image_ID = ''sha256:pg'', RepoTags = [''postgres:16'']\<rparr>,
                  \<lparr>image_ID = ''sha256:new'', RepoTags = [''nginx:latest'']\<rparr>]"
  let ?e2 = "steady_engine\<lparr>sim_images := ?images\<rparr>"
  let ?D' = "web_spec\<lparr>Image := ''nginx''\<rparr>"
  have i: "ContainerInspect sim_client ''c1'' (engine ?w) = (Inr ?obs, steady_engine)"
    by (simp add: sim_defs sample_defs)
  have p: "ImagePull sim_client (Image web_spec) steady_engine = (Inr (), ?e2)"
    by (simp add: sim_defs sample_defs)
  have p': "ImagePull sim_client (Image ?D') steady_engine = (Inr (), ?e2)"
    by (simp add: sim_defs sample_defs)
  have l: "ImageList sim_client ?e2 = (Inr ?images, ?e2)"
    by (simp add: sim_defs)
  have m: "filter (\<lambda>img. Image web_spec \<in> set (RepoTags img)) ?images =
             [\<lparr>image_ID = ''sha256:new'', RepoTags = [''nginx:latest'']\<rparr>]"
    by (simp add: web_spec_def)
  have m': "filter (\<lambda>img. Image ?D' \<in> set (RepoTags img)) ?images = []"
    by simp
  from C8_freshness[of sim_client "''c1''" ?w ?obs steady_engine web_spec ?e2 ?images ?e2]
    i p l m
  have v: "fst (isContainerUpToDate sim_client ''c1'' web_spec ?w) = Inr False \<and>
        PullCall (Image web_spec) \<in> set (new_calls ?w
          (snd (isContainerUpToDate sim_client ''c1'' web_spec ?w)))"
    by simp
  from C8_freshness[of sim_client "''c1''" ?w ?obs steady_engine ?D' ?e2 ?images ?e2]
    i p' l m'
  have "fst (isContainerUpToDate sim_client ''c1'' ?D' ?w) =
          Inl (Err (''could not find the latest image for '' @ Image ?D'))"
    by simp
  with v show ?thesis by (simp add: web_spec_def)
qed

subsection \<open>Claims on the pass over the desired containers\<close>

lemma quiet_ret: "quiet (ret a)"
  by (simp add: quiet_def ret_def)

lemma quiet_lift: "quiet (lift r)"
  by (simp add: quiet_def lift_def)

lemma quiet_engine_call: "\<not> freshness_call c \<Longrightarrow> quiet (engine_call c operation)"
  by (auto simp: quiet_def engine_call_def split: prod.splits)

lemma quietD:
  assumes "quiet m" "m w = (r, w1)"
  shows "\<exists>new. calls w1 = calls w @ new \<and> filter freshness_call new = []"
proof -
  from assms(1) have "\<exists>new. calls (snd (m w)) = calls w @ new \<and> filter freshness_call new = []"
    unfolding quiet_def by (rule spec)
  with assms(2) show ?thesis by simp
qed

lemma quiet_andThen:
  assumes "quiet m" "\<And>a. quiet (f a)"
  shows "quiet (andThen m f)"
  unfolding quiet_def
proof
  fix w
  obtain r w1 where m: "m w = (r, w1)" by fastforce
  from quietD[OF assms(1) m] obtain new1 where
    n1: "calls w1 = calls w @ new1" "filter freshness_call new1 = []"
    by blast
  show "\<exists>new. calls (snd (andThen m f w)) = calls w @ new \<and> filter freshness_call new = []"
  proof (cases r)
    case (Inl x)
    with m n1 show ?thesis by (simp add: andThen_def)
  next
    case (Inr a)
    from quietD[OF assms(2)[of a] surjective_pairing] obtain new2 where
      "calls (snd (f a w1)) = calls w1 @ new2" "filter freshness_call new2 = []"
      by blast
    with m Inr n1 have "calls (snd (andThen m f w)) = calls w @ (new1 @ new2) \<and>
        filter freshness_call (new1 @ new2) = []"
      by (simp add: andThen_def)
    then show ?thesis by blast
  qed
qed

lemma quiet_fatal_on_error: "quiet m \<Longrightarrow> quiet (fatal_on_error prefix m)"
  unfolding quiet_def
proof
  fix w
  assume q: "\<forall>w. \<exists>new. calls (snd (m w)) = calls w @ new \<and> filter freshness_call new = []"
  have "snd (fatal_on_error prefix m w) = snd (m w)"
    by (auto simp: fatal_on_error_def split: prod.splits sum.splits failure.splits)
  with q show "\<exists>new. calls (snd (fatal_on_error prefix m w)) = calls w @ new \<and>
      filter freshness_call new = []"
    by simp
qed

lemma quiet_if: "quiet m \<Longrightarrow> quiet n \<Longrightarrow> quiet (if b then m else n)"
  by simp

lemmas quiet_intros = quiet_andThen quiet_ret quiet_lift quiet_engine_call
  quiet_fatal_on_error quiet_if

lemma quiet_DeleteContainer: "quiet (DeleteContainer cli cid)"
  unfolding DeleteContainer_def by (intro quiet_intros) simp_all

lemma quiet_CreateContainer: "quiet (CreateContainer cli config)"
  unfolding CreateContainer_def by (intro quiet_intros) simp_all

lemma quiet_GetContainerIDByName: "quiet (GetContainerIDByName cli name)"
  unfolding GetContainerIDByName_def
  by (intro quiet_intros) (simp_all add: quiet_intros split: option.splits)

lemma quiet_EnsureRunningContainers: "quiet (EnsureRunningContainers cli cid)"
  unfolding EnsureRunningContainers_def by (intro quiet_intros) simp_all

lemma quiet_ensureContainerConfig: "quiet (ensureContainerConfig cli config)"
  unfolding ensureContainerConfig_def
  by (intro quiet_intros)
     (auto simp: quiet_DeleteContainer quiet_CreateContainer split: option.splits
        intro!: quiet_intros)

lemma quiet_recreate:
  "quiet (andThen (DeleteContainer cli ctid) (\<lambda>_.
          andThen (CreateContainer cli container) (\<lambda>_.
          GetContainerIDByName cli (Name container))))"
  by (intro quiet_andThen quiet_DeleteContainer quiet_CreateContainer
      quiet_GetContainerIDByName)

lemma andThen_extends:
  assumes "\<And>a. quiet (f a)"
  shows "\<exists>new. calls (snd (andThen m f w)) = calls (snd (m w)) @ new"
proof -
  obtain r w1 where m: "m w = (r, w1)" by fastforce
  show ?thesis
  proof (cases r)
    case (Inl x)
    with m show ?thesis by (simp add: andThen_def)
  next
    case (Inr a)
    from quietD[OF assms[of a] surjective_pairing] obtain new where
      "calls (snd (f a w1)) = calls w1 @ new" by blast
    with m Inr show ?thesis by (simp add: andThen_def)
  qed
qed

lemma name_guard:
  "(if rcs \<noteq> [] then lift (name_exists name rcs) else ret False) = lift (name_exists name rcs)"
  by (cases rcs) (auto simp: lift_def ret_def fun_eq_iff)

lemma andThen_Inr: "m w = (Inr a, w') \<Longrightarrow> andThen m f w = f a w'"
  by (simp add: andThen_def)

lemma andThen_ret: "andThen (ret a) f = f a"
  by (simp add: andThen_def ret_def fun_eq_iff)

lemma andThen_lift_Inr: "andThen (lift (Inr a)) f = f a"
  by (simp add: andThen_def lift_def fun_eq_iff)

lemma fatal_on_error_Inr: "m w = (Inr a, w') \<Longrightarrow> fatal_on_error prefix m w = (Inr a, w')"
  by (simp add: fatal_on_error_def)

lemma body_created:
  assumes "name_exists (Name c) rcs = Inr False"
    and "CreateContainer cli c w = (Inr True, w0)"
  shows "ensureContainers_body cli rcs uc c w =
           andThen (GetContainerIDByName cli (Name c)) (EnsureRunningContainers cli) w0"
  by (simp only: ensureContainers_body_def name_guard)
     (simp add: assms(1) andThen_lift_Inr
        andThen_Inr[of "CreateContainer cli c" w True w0, OF assms(2)] andThen_ret)

lemma body_not_created:
  assumes "name_exists (Name c) rcs = Inr True \<and> w0 = w \<or>
           name_exists (Name c) rcs = Inr False \<and> CreateContainer cli c w = (Inr False, w0)"
    and "ensureContainerConfig cli c w0 = (Inr (), w1)"
    and "GetContainerIDByName cli (Name c) w1 = (Inr ctid, w2)"
  shows "ensureContainers_body cli rcs True c w =
           andThen
             (andThen (isContainerUpToDate cli ctid c) (\<lambda>upToDate.
                if \<not> upToDate
                then
                  andThen (DeleteContainer cli ctid) (\<lambda>_.
                  andThen (CreateContainer cli c) (\<lambda>_.
                  GetContainerIDByName cli (Name c)))
                else ret ctid))
             (EnsureRunningContainers cli) w2"
proof -
  note cfg = andThen_Inr[of "fatal_on_error ''Error ensuring container configuration: ''
        (ensureContainerConfig cli c)" w0 "()" w1,
      OF fatal_on_error_Inr[of "ensureContainerConfig cli c" w0 "()" w1, OF assms(2)]]
  note gid = andThen_Inr[of "GetContainerIDByName cli (Name c)" w1 ctid w2, OF assms(3)]
  from assms(1) show ?thesis
  proof (elim disjE conjE)
    assume f: "name_exists (Name c) rcs = Inr True" and w: "w0 = w"
    show ?thesis
      by (simp only: ensureContainers_body_def name_guard)
         (simp add: f andThen_lift_Inr andThen_ret cfg[unfolded w] gid)
  next
    assume f: "name_exists (Name c) rcs = Inr False"
      and cr: "CreateContainer cli c w = (Inr False, w0)"
    show ?thesis
      by (simp only: ensureContainers_body_def name_guard)
         (simp add: f andThen_lift_Inr andThen_ret
            andThen_Inr[of "CreateContainer cli c" w False w0, OF cr] cfg gid)
  qed
qed

lemma quiet_body_no_check: "quiet (ensureContainers_body cli rcs False c)"
proof -
  have eq: "ensureContainers_body cli rcs False c =
     andThen (lift (name_exists (Name c) rcs)) (\<lambda>found.
     andThen (if \<not> found then CreateContainer cli c else ret False) (\<lambda>created.
     andThen (if \<not> created
              then fatal_on_error ''Error ensuring container configuration: ''
                     (ensureContainerConfig cli c)
              else ret ()) (\<lambda>_.
     andThen (GetContainerIDByName cli (Name c)) (\<lambda>ctid.
     andThen (ret ctid) (EnsureRunningContainers cli)))))"
    by (simp add: ensureContainers_body_def name_guard)
  show ?thesis
    unfolding eq
    by (intro quiet_andThen quiet_lift quiet_if quiet_ret quiet_fatal_on_error
        quiet_CreateContainer quiet_ensureContainerConfig quiet_GetContainerIDByName
        quiet_EnsureRunningContainers)
qed

text \<open>
  Claim C4, as the code has it, for the handling of one desired container in a pass
  (\<open>rcs\<close> is the listing read before the loop, \<open>uc\<close> the update-check flag). When the
  container is not in the listing and \<^verbatim>\<open>CreateContainer\<close> reports it created, no call of
  the freshness check (pull, listing of images) is issued for it; neither is one when
  update checking is off. When update checking is on and the container was not
  created by that step, the freshness check runs as soon as \<^verbatim>\<open>ensureContainerConfig\<close> and
  the lookup of the identifier have succeeded, whether \<^verbatim>\<open>ensureContainerConfig\<close> has just
  recreated the container or not: the next calls are the inspection of the container
  and, when that succeeds, the pull of the desired image.
\<close>

theorem C4_freshness_gate:
  "(name_exists (Name c) rcs = Inr False \<and> CreateContainer cli c w = (Inr True, w0) \<longrightarrow>
      filter freshness_call (new_calls w (snd (ensureContainers_body cli rcs uc c w))) = []) \<and>
   (\<not> uc \<longrightarrow>
      filter freshness_call (new_calls w (snd (ensureContainers_body cli rcs uc c w))) = []) \<and>
   (uc \<and>
    (name_exists (Name c) rcs = Inr True \<and> w0 = w \<or>
     name_exists (Name c) rcs = Inr False \<and> CreateContainer cli c w = (Inr False, w0)) \<and>
    ensureContainerConfig cli c w0 = (Inr (), w1) \<and>
    GetContainerIDByName cli (Name c) w1 = (Inr ctid, w2) \<and>
    ContainerInspect cli ctid (engine w2) = (Inr obs, e3) \<longrightarrow>
      (\<exists>rest. calls (snd (ensureContainers_body cli rcs uc c w)) =
                calls w2 @ [InspectCall ctid, PullCall (Image c)] @ rest))"
proof (intro conjI impI)
  assume a: "name_exists (Name c) rcs = Inr False \<and> CreateContainer cli c w = (Inr True, w0)"
  hence body: "ensureContainers_body cli rcs uc c w =
           andThen (GetContainerIDByName cli (Name c)) (EnsureRunningContainers cli) w0"
    by (simp add: body_created)
  from a quietD[OF quiet_CreateContainer, of cli c w "Inr True" w0] obtain new1 where
    n1: "calls w0 = calls w @ new1" "filter freshness_call new1 = []" by blast
  have "quiet (andThen (GetContainerIDByName cli (Name c)) (EnsureRunningContainers cli))"
    by (intro quiet_andThen quiet_GetContainerIDByName quiet_EnsureRunningContainers)
  from quietD[OF this surjective_pairing, of w0] obtain new2 where
    "calls (snd (andThen (GetContainerIDByName cli (Name c)) (EnsureRunningContainers cli) w0))
       = calls w0 @ new2" "filter freshness_call new2 = []" by blast
  with body n1 show
    "filter freshness_call (new_calls w (snd (ensureContainers_body cli rcs uc c w))) = []"
    by (simp add: new_calls_def)
next
  assume "\<not> uc"
  with quietD[OF quiet_body_no_check surjective_pairing, of cli rcs c w]
  show "filter freshness_call (new_calls w (snd (ensureContainers_body cli rcs uc c w))) = []"
    by (auto simp: new_calls_def)
next
  assume a: "uc \<and>
    (name_exists (Name c) rcs = Inr True \<and> w0 = w \<or>
     name_exists (Name c) rcs = Inr False \<and> CreateContainer cli c w = (Inr False, w0)) \<and>
    ensureContainerConfig cli c w0 = (Inr (), w1) \<and>
    GetContainerIDByName cli (Name c) w1 = (Inr ctid, w2) \<and>
    ContainerInspect cli ctid (engine w2) = (Inr obs, e3)"
  let ?K = "\<lambda>upToDate.
                if \<not> upToDate
                then
                  andThen (DeleteContainer cli ctid) (\<lambda>_.
                  andThen (CreateContainer cli c) (\<lambda>_.
                  GetContainerIDByName cli (Name c)))
                else ret ctid"
  from a have body: "ensureContainers_body cli rcs uc c w =
      andThen (andThen (isContainerUpToDate cli ctid c) ?K) (EnsureRunningContainers cli) w2"
    using body_not_created[of c rcs w0 w cli w1 ctid w2] by simp
  have qK: "quiet (?K b)" for b
    by (simp add: quiet_recreate quiet_ret)
  from a isContainerUpToDate_pulls[of cli ctid w2 obs e3 c] obtain rest0 where
    r0: "calls (snd (isContainerUpToDate cli ctid c w2)) =
           calls w2 @ [InspectCall ctid, PullCall (Image c)] @ rest0" by blast
  from andThen_extends[of ?K "isContainerUpToDate cli ctid c" w2, OF qK] obtain new1 where
    n1: "calls (snd (andThen (isContainerUpToDate cli ctid c) ?K w2)) =
           calls (snd (isContainerUpToDate cli ctid c w2)) @ new1" by blast
  from andThen_extends[of "EnsureRunningContainers cli"
      "andThen (isContainerUpToDate cli ctid c) ?K" w2, OF quiet_EnsureRunningContainers]
  obtain new2 where
    n2: "calls (snd (andThen (andThen (isContainerUpToDate cli ctid c) ?K)
                       (EnsureRunningContainers cli) w2)) =
           calls (snd (andThen (isContainerUpToDate cli ctid c) ?K w2)) @ new2" by blast
  from body r0 n1 n2 have
    "calls (snd (ensureContainers_body cli rcs uc c w)) =
       calls w2 @ [InspectCall ctid, PullCall (Image c)] @ (rest0 @ new1 @ new2)"
    by simp
  then show "\<exists>rest. calls (snd (ensureContainers_body cli rcs uc c w)) =
                calls w2 @ [InspectCall ctid, PullCall (Image c)] @ rest"
    by blast
qed

text \<open>
  On the small engine. With no container at all, \<^verbatim>\<open>web\<close> is created and no call of the
  freshness check is issued. With \<^verbatim>\<open>web\<close> running on another host port, the comparator
  step stops and removes \<^verbatim>\<open>c1\<close> and creates \<^verbatim>\<open>c2\<close>, and the freshness check of \<^verbatim>\<open>c2\<close> follows
  in the same handling; with update checking off it does not.
\<close>

theorem C4_freshness_gate_witness:
  "fst (CreateContainer sim_client web_spec \<lparr>engine = bare_engine, calls = [ListCall]\<rparr>) =
     Inr True \<and>
   filter freshness_call
     (new_calls \<lparr>engine = bare_engine, calls = [ListCall]\<rparr>
        (snd (ensureContainers_body sim_client [] True web_spec
                \<lparr>engine = bare_engine, calls = [ListCall]\<rparr>))) = [] \<and>
   filter freshness_call
     (new_calls \<lparr>engine = drift_engine, calls = [ListCall]\<rparr>
        (snd (ensureContainers_body sim_client [\<lparr>ID = ''c1'', Names = [''/web'']\<rparr>] False web_spec
                \<lparr>engine = drift_engine, calls = [ListCall]\<rparr>))) = [] \<and>
   calls (snd (ensureContainerConfig sim_client web_spec
                 \<lparr>engine = drift_engine, calls = [ListCall]\<rparr>)) =
     [ListCall, ListCall, InspectCall ''c1'', StopCall ''c1'', RemoveCall ''c1'', ListCall,
      CreateCall (create_request_of web_spec)] \<and>
   (\<exists>rest.
      calls (snd (ensureContainers_body sim_client [\<lparr>ID = ''c1'', Names = [''/web'']\<rparr>] True
                    web_spec \<lparr>engine = drift_engine, calls = [ListCall]\<rparr>)) =
        [ListCall, ListCall, InspectCall ''c1'', StopCall ''c1'', RemoveCall ''c1'', ListCall,
         CreateCall (create_request_of web_spec), ListCall]
        @ [InspectCall ''c2'', PullCall ''nginx:latest''] @ rest)"
proof -
  let ?wb = "\<lparr>engine = bare_engine, calls = [ListCall]\<rparr>"
  let ?wd = "\<lparr>engine = drift_engine, calls = [ListCall]\<rparr>"
  let ?rcs = "[\<lparr>ID = ''c1'', Names = [''/web'']\<rparr>]"
  let ?w1 = "snd (ensureContainerConfig sim_client web_spec ?wd)"
  let ?w2 = "snd (GetContainerIDByName sim_client (Name web_spec) ?w1)"
  let ?obs = "\<lparr>inspect_Image = ''sha256:old'',
               inspect_Config = create_Config (create_request_of web_spec),
               HostConfig_PortBindings = PortBindings web_spec\<rparr>"
  have nb: "name_exists (Name web_spec) [] = Inr False" by simp
  have cb: "CreateContainer sim_client web_spec ?wb =
              (Inr True, snd (CreateContainer sim_client web_spec ?wb))"
    by (simp add: eval_defs)
  have nd: "name_exists (Name web_spec) ?rcs = Inr True"
    by (simp add: web_spec_def)
  have e1: "ensureContainerConfig sim_client web_spec ?wd = (Inr (), ?w1)"
    by (simp add: eval_defs)
  have c1: "calls ?w1 =
     [ListCall, ListCall, InspectCall ''c1'', StopCall ''c1'', RemoveCall ''c1'', ListCall,
      CreateCall (create_request_of web_spec)]"
    by (simp add: eval_defs)
  have g2: "GetContainerIDByName sim_client (Name web_spec) ?w1 = (Inr ''c2'', ?w2)"
    by (simp add: eval_defs)
  have c2: "calls ?w2 = calls ?w1 @ [ListCall]"
    by (simp add: eval_defs)
  have i2: "ContainerInspect sim_client ''c2'' (engine ?w2) = (Inr ?obs, engine ?w2)"
    by (simp add: eval_defs)
  note gate = C4_freshness_gate[of web_spec _ sim_client]
  from gate[of "[]" ?wb "snd (CreateContainer sim_client web_spec ?wb)" True] nb cb
  have a: "filter freshness_call
     (new_calls ?wb (snd (ensureContainers_body sim_client [] True web_spec ?wb))) = []"
    by blast
  from gate[of ?rcs ?wd ?wd False]
  have b: "filter freshness_call
     (new_calls ?wd (snd (ensureContainers_body sim_client ?rcs False web_spec ?wd))) = []"
    by blast
  from gate[of ?rcs ?wd ?wd True ?w1 "''c2''" ?w2 ?obs "engine ?w2"] nd e1 g2 i2
  obtain rest where
    "calls (snd (ensureContainers_body sim_client ?rcs True web_spec ?wd)) =
       calls ?w2 @ [InspectCall ''c2'', PullCall (Image web_spec)] @ rest"
    by blast
  with c1 c2 have c: "\<exists>rest.
      calls (snd (ensureContainers_body sim_client ?rcs True web_spec ?wd)) =
        [ListCall, ListCall, InspectCall ''c1'', StopCall ''c1'', RemoveCall ''c1'', ListCall,
         CreateCall (create_request_of web_spec), ListCall]
        @ [InspectCall ''c2'', PullCall ''nginx:latest''] @ rest"
    by (simp add: web_spec_def)
  from cb have "fst (CreateContainer sim_client web_spec ?wb) = Inr True"
    by (metis fst_conv)
  with a b c1 c show ?thesis by simp
qed

text \<open>
  Claim C4 as stated fails. \<^verbatim>\<open>web\<close> runs on another host port than the desired one and
  the registry holds a newer image. In one pass the container \<^verbatim>\<open>c1\<close> is recreated for the
  mismatch as \<^verbatim>\<open>c2\<close>; \<^verbatim>\<open>c2\<close> is then freshness-checked, found stale and recreated a second
  time as \<^verbatim>\<open>c3\<close>.
\<close>

theorem C4_recreated_then_checked_counterexample:
  "fst (ensureContainers sim_client [web_spec] True \<lparr>engine = drift_engine, calls = []\<rparr>) =
     Inr () \<and>
   calls (snd (ensureContainers sim_client [web_spec] True
                 \<lparr>engine = drift_engine, calls = []\<rparr>)) =
     [ListCall,
      ListCall, InspectCall ''c1'', StopCall ''c1'', RemoveCall ''c1'',
      ListCall, CreateCall (create_request_of web_spec),
      ListCall,
      InspectCall ''c2'', PullCall ''nginx:latest'', ImageListCall,
      StopCall ''c2'', RemoveCall ''c2'',
      ListCall, CreateCall (create_request_of web_spec),
      ListCall,
      StartCall ''c3'']"
  by (simp add: eval_defs)

subsection \<open>The fan-out of the stats queries\<close>

text \<open>
  When the error messages of all tasks fit into the error channel every task comes to
  its end, the handler records every sample sent and answers with all the error
  messages in one response (or serves the metrics when there is none). When they do
  not fit, some task blocks and the handler never answers.
\<close>

lemma sent_errors_append [simp]: "sent_errors (xs @ ys) = sent_errors xs @ sent_errors ys"
  by (induction xs rule: sent_errors.induct) auto

lemma sent_samples_append [simp]: "sent_samples (xs @ ys) = sent_samples xs @ sent_samples ys"
  by (induction xs rule: sent_samples.induct) auto

lemma run_task_fits:
  "length (errChan ch) + length (sent_errors task) \<le> cap \<Longrightarrow>
   length (statsChan ch) + length (sent_samples task) \<le> cap \<Longrightarrow>
   run_task cap task ch =
     (\<lparr>statsChan = statsChan ch @ sent_samples task,
       errChan = errChan ch @ sent_errors task\<rparr>, True)"
  by (induction cap task ch rule: run_task.induct) auto

lemma run_tasks_fit:
  "length (errChan ch) + length (sent_errors (concat tasks)) \<le> cap \<Longrightarrow>
   length (statsChan ch) + length (sent_samples (concat tasks)) \<le> cap \<Longrightarrow>
   run_tasks cap tasks ch =
     (\<lparr>statsChan = statsChan ch @ sent_samples (concat tasks),
       errChan = errChan ch @ sent_errors (concat tasks)\<rparr>, True)"
proof (induction tasks arbitrary: ch)
  case Nil
  then show ?case by simp
next
  case (Cons t ts)
  let ?ch1 = "\<lparr>statsChan = statsChan ch @ sent_samples t,
                errChan = errChan ch @ sent_errors t\<rparr>"
  from Cons.prems have 1: "run_task cap t ch = (?ch1, True)"
    by (intro run_task_fits) auto
  from Cons.prems have "run_tasks cap ts ?ch1 =
     (\<lparr>statsChan = statsChan ?ch1 @ sent_samples (concat ts),
       errChan = errChan ?ch1 @ sent_errors (concat ts)\<rparr>, True)"
    by (intro Cons.IH) auto
  with 1 show ?case by simp
qed

lemma stats_task_samples: "length (sent_samples (stats_task stats cid)) \<le> 1"
  by (auto simp: stats_task_def split: sum.splits option.splits)

lemma concat_samples:
  "length (sent_samples (concat (map (\<lambda>c. stats_task stats (ID c)) cs))) \<le> length cs"
proof (induction cs)
  case Nil
  then show ?case by simp
next
  case (Cons c cs)
  from stats_task_samples[of stats "ID c"] Cons show ?case by simp
qed

lemma GenerateMetrics_errors_fit:
  assumes "ListAllContariners cli w = (Inr containers, w')"
    and "sends = concat (map (\<lambda>container. stats_task stats (ID container)) containers)"
    and "length (sent_errors sends) \<le> length containers"
  shows "GenerateMetrics stats cli dm w =
     ((if sent_errors sends = [] then ServedMetrics
       else Responded 500
              (''Errors occurred: ['' @ join_space (sent_errors sends) @ '']'' @ newline)),
      foldl UpdateMetrics dm (sent_samples sends), w')"
proof -
  have "run_tasks (length containers)
          (map (\<lambda>container. stats_task stats (ID container)) containers)
          \<lparr>statsChan = [], errChan = []\<rparr> =
        (\<lparr>statsChan = sent_samples sends, errChan = sent_errors sends\<rparr>, True)"
    using run_tasks_fit[of "\<lparr>statsChan = [], errChan = []\<rparr>"
        "map (\<lambda>container. stats_task stats (ID container)) containers" "length containers"]
      assms(2,3) concat_samples[of stats containers]
    by simp
  with assms(1) show ?thesis
    by (simp add: GenerateMetrics_def Let_def)
qed


lemma run_task_finished:
  "run_task cap task ch = (ch', True) \<Longrightarrow> length (errChan ch) \<le> cap \<Longrightarrow>
   errChan ch' = errChan ch @ sent_errors task \<and> length (errChan ch') \<le> cap"
  by (induction cap task ch rule: run_task.induct) (auto split: if_splits)

lemma run_tasks_block:
  "length (errChan ch) \<le> cap \<Longrightarrow>
   cap < length (errChan ch) + length (sent_errors (concat tasks)) \<Longrightarrow>
   snd (run_tasks cap tasks ch) = False"
proof (induction tasks arbitrary: ch)
  case Nil
  then show ?case by simp
next
  case (Cons t ts)
  obtain ch1 f1 where 1: "run_task cap t ch = (ch1, f1)" by fastforce
  show ?case
  proof (cases f1)
    case False
    with 1 show ?thesis by (auto split: prod.splits)
  next
    case True
    with 1 have r: "run_task cap t ch = (ch1, True)" by simp
    from run_task_finished[OF r Cons.prems(1)]
    have e: "errChan ch1 = errChan ch @ sent_errors t" "length (errChan ch1) \<le> cap"
      by blast+
    with Cons.prems(2) have "cap < length (errChan ch1) + length (sent_errors (concat ts))"
      by simp
    from Cons.IH[OF e(2) this] 1 show ?thesis by (auto split: prod.splits)
  qed
qed

lemma GenerateMetrics_errors_overflow:
  assumes "ListAllContariners cli w = (Inr containers, w')"
    and "sends = concat (map (\<lambda>container. stats_task stats (ID container)) containers)"
    and "length containers < length (sent_errors sends)"
  shows "fst (GenerateMetrics stats cli dm w) = NoResponse"
proof -
  have "snd (run_tasks (length containers)
          (map (\<lambda>container. stats_task stats (ID container)) containers)
          \<lparr>statsChan = [], errChan = []\<rparr>) = False"
    using run_tasks_block[of "\<lparr>statsChan = [], errChan = []\<rparr>" "length containers"
        "map (\<lambda>container. stats_task stats (ID container)) containers"] assms(2,3)
    by simp
  then obtain ch where "run_tasks (length containers)
          (map (\<lambda>container. stats_task stats (ID container)) containers)
          \<lparr>statsChan = [], errChan = []\<rparr> = (ch, False)"
    by (metis prod.collapse)
  with assms(1) show ?thesis
    by (simp add: GenerateMetrics_def Let_def)
qed

subsection \<open>Claims on the handlers and on the metrics\<close>

lemma fatal_not_responded: "fatal prefix x \<noteq> Responded status body"
  by (cases x) (simp_all add: fatal_def)

lemma reconcileContainers_responded:
  "fst (reconcileContainers NewPort cli cfg g w) = Responded status body \<Longrightarrow>
   status = 200 \<and> body = ''Containers reconciled'' @ newline"
  by (auto simp: reconcileContainers_def fatal_not_responded
      split: prod.splits sum.splits if_splits)

text \<open>
  Claim C6, as the code has it. A failing reload and a failing reconciliation are not
  answered: the error goes to \<^verbatim>\<open>log.Fatalf\<close>, which logs it and ends the process; the only
  response the reconciliation handler ever writes is the confirmation with status 200.
  A failing scrape is answered with status 500: with a fixed text when the listing of
  the containers fails, and with the batched error messages when stats queries failed
  and every fan-out task came to its end.
\<close>

theorem C6_handlers:
  "fst (reloadConfig (Inl err) cfg) =
     ProcessExit (''Error reloading config: error reading config: '' @ err) \<and>
   (fst (ConfigToDockerConfig NewPort cfg g) = Inl err \<longrightarrow>
      fst (reconcileContainers NewPort cli cfg g w) =
        ProcessExit (''Error converting config to Docker config: '' @ err)) \<and>
   (ConfigToDockerConfig NewPort cfg g = (Inr specs, g') \<and>
    RemoveUnwantedContainers (AppConfig cfg) \<and>
    removeUnwantedContainers cli specs w = (Inl (Err err), w1) \<longrightarrow>
      fst (reconcileContainers NewPort cli cfg g w) =
        ProcessExit (''Error when removing unwanted containers: '' @ err)) \<and>
   (ConfigToDockerConfig NewPort cfg g = (Inr specs, g') \<and>
    (if RemoveUnwantedContainers (AppConfig cfg) then removeUnwantedContainers cli specs w
     else (Inr (), w)) = (Inr (), w1) \<and>
    ensureContainers cli specs (UpdateCheck (AppConfig cfg)) w1 = (Inl (Err err), w2) \<longrightarrow>
      fst (reconcileContainers NewPort cli cfg g w) =
        ProcessExit (''Error ensuring containers: '' @ err)) \<and>
   (\<forall>status body. fst (reconcileContainers NewPort cli cfg g w) = Responded status body \<longrightarrow>
      status = 200 \<and> body = ''Containers reconciled'' @ newline) \<and>
   (fst (ListAllContariners cli w) = Inl x \<longrightarrow>
      fst (GenerateMetrics stats cli dm w) =
        Responded 500 (''Could not list containers'' @ newline)) \<and>
   (ListAllContariners cli w = (Inr containers, w') \<and>
    run_tasks (length containers) (map (\<lambda>container. stats_task stats (ID container)) containers)
      \<lparr>statsChan = [], errChan = []\<rparr> = (ch, True) \<and>
    errChan ch \<noteq> [] \<longrightarrow>
      GenerateMetrics stats cli dm w =
        (Responded 500 (''Errors occurred: ['' @ join_space (errChan ch) @ '']'' @ newline),
         foldl UpdateMetrics dm (statsChan ch), w'))"
proof (intro conjI impI allI)
  show "fst (reloadConfig (Inl err) cfg) =
     ProcessExit (''Error reloading config: error reading config: '' @ err)"
    by (simp add: reloadConfig_def updateConfig_def)
next
  assume "fst (ConfigToDockerConfig NewPort cfg g) = Inl err"
  then show "fst (reconcileContainers NewPort cli cfg g w) =
        ProcessExit (''Error converting config to Docker config: '' @ err)"
    by (auto simp: reconcileContainers_def split: prod.splits sum.splits)
next
  assume "ConfigToDockerConfig NewPort cfg g = (Inr specs, g') \<and>
    RemoveUnwantedContainers (AppConfig cfg) \<and>
    removeUnwantedContainers cli specs w = (Inl (Err err), w1)"
  then show "fst (reconcileContainers NewPort cli cfg g w) =
        ProcessExit (''Error when removing unwanted containers: '' @ err)"
    by (simp add: reconcileContainers_def fatal_def)
next
  assume "ConfigToDockerConfig NewPort cfg g = (Inr specs, g') \<and>
    (if RemoveUnwantedContainers (AppConfig cfg) then removeUnwantedContainers cli specs w
     else (Inr (), w)) = (Inr (), w1) \<and>
    ensureContainers cli specs (UpdateCheck (AppConfig cfg)) w1 = (Inl (Err err), w2)"
  then show "fst (reconcileContainers NewPort cli cfg g w) =
        ProcessExit (''Error ensuring containers: '' @ err)"
    by (simp add: reconcileContainers_def fatal_def)
next
  fix status body
  assume "fst (reconcileContainers NewPort cli cfg g w) = Responded status body"
  from reconcileContainers_responded[OF this]
  show "status = 200" and "body = ''Containers reconciled'' @ newline" by simp_all
next
  assume "fst (ListAllContariners cli w) = Inl x"
  then show "fst (GenerateMetrics stats cli dm w) =
        Responded 500 (''Could not list containers'' @ newline)"
    by (auto simp: GenerateMetrics_def split: prod.splits sum.splits)
next
  assume "ListAllContariners cli w = (Inr containers, w') \<and>
    run_tasks (length containers) (map (\<lambda>container. stats_task stats (ID container)) containers)
      \<lparr>statsChan = [], errChan = []\<rparr> = (ch, True) \<and>
    errChan ch \<noteq> []"
  then show "GenerateMetrics stats cli dm w =
        (Responded 500 (''Errors occurred: ['' @ join_space (errChan ch) @ '']'' @ newline),
         foldl UpdateMetrics dm (statsChan ch), w')"
    by (simp add: GenerateMetrics_def Let_def)
qed

lemma ConfigToDockerConfig_redis:
  "ConfigToDockerConfig slashPort redis_config [] =
     (Inr [\<lparr>Image = ''redis:7'', Name = ''cache'', ExposedPorts = Some {},
            PortBindings = Some Map.empty, Env = None, Cmd = None\<rparr>],
      [\<lparr>Image = ''redis:7'', Name = ''cache'', ExposedPorts = Some {},
        PortBindings = Some Map.empty, Env = None, Cmd = None\<rparr>])"
  by (simp add: ConfigToDockerConfig_def redis_config_def)

lemma cpuPercent_busy: "cpuPercent busy_stats = Finite 20"
  by (simp add: cpuPercent_def busy_stats_def float64_of_def)

text \<open>
  On the small engine: a conversion that fails, a pruning that cannot reach the engine
  and a creation from an image the engine does not hold each end the process; a scrape
  that cannot list the containers is answered with status 500, and so is a scrape in
  which the query for \<^verbatim>\<open>c2\<close> fails, after the gauges of \<^verbatim>\<open>c1\<close> were set.
\<close>

theorem C6_handlers_witness:
  "fst (reconcileContainers (\<lambda>proto port. Inl ''invalid port'') sim_client web_config []
          \<lparr>engine = steady_engine, calls = []\<rparr>) =
     ProcessExit ''Error converting config to Docker config: invalid port'' \<and>
   fst (reconcileContainers slashPort down_client web_config []
          \<lparr>engine = steady_engine, calls = []\<rparr>) =
     ProcessExit
       ''Error when removing unwanted containers: Cannot connect to the Docker daemon'' \<and>
   fst (reconcileContainers slashPort sim_client redis_config []
          \<lparr>engine = bare_engine, calls = []\<rparr>) =
     ProcessExit ''Error ensuring containers: No such image: redis:7'' \<and>
   fst (GenerateMetrics half_stats down_client no_metrics
          \<lparr>engine = steady_engine, calls = []\<rparr>) =
     Responded 500 (''Could not list containers'' @ newline) \<and>
   fst (GenerateMetrics half_stats sim_client no_metrics
          \<lparr>engine = steady_engine, calls = []\<rparr>) =
     Responded 500
       (''Errors occurred: [could not fetch stats for container c2: context deadline exceeded]''
        @ newline) \<and>
   CPUUsageTotal (fst (snd (GenerateMetrics half_stats sim_client no_metrics
                              \<lparr>engine = steady_engine, calls = []\<rparr>))) (''c1'', ''/web'') =
     Some (Finite 20)"
proof -
  let ?ws = "\<lparr>engine = steady_engine, calls = []\<rparr>"
  let ?wb = "\<lparr>engine = bare_engine, calls = []\<rparr>"
  let ?bad = "\<lambda>proto port. Inl ''invalid port'' :: string + Port"
  let ?cache = "\<lparr>Image = ''redis:7'', Name = ''cache'', ExposedPorts = Some {},
            PortBindings = Some Map.empty, Env = None, Cmd = None\<rparr>"
  let ?obs = "[\<lparr>ID = ''c1'', Names = [''/web'']\<rparr>, \<lparr>ID = ''c2'', Names = [''/db'']\<rparr>]"
  let ?ch = "\<lparr>statsChan = [busy_stats],
     errChan = [''could not fetch stats for container c2: context deadline exceeded'']\<rparr>"
  have conv: "fst (ConfigToDockerConfig ?bad web_config []) = Inl ''invalid port''"
    by (simp add: ConfigToDockerConfig_def web_config_def)
  have flag: "RemoveUnwantedContainers (AppConfig web_config)"
    by (simp add: web_config_def)
  have prune: "removeUnwantedContainers down_client [web_spec] ?ws =
      (Inl (Err ''Cannot connect to the Docker daemon''),
       \<lparr>engine = steady_engine, calls = [ListCall]\<rparr>)"
    by (simp add: prog_defs down_client_def sim_client_def)
  have noflag: "(if RemoveUnwantedContainers (AppConfig redis_config)
      then removeUnwantedContainers sim_client [?cache] ?wb else (Inr (), ?wb)) = (Inr (), ?wb)"
    by (simp add: redis_config_def)
  have "fst (ensureContainers sim_client [?cache] (UpdateCheck (AppConfig redis_config)) ?wb) =
      Inl (Err ''No such image: redis:7'')"
    by (simp add: eval_defs redis_config_def)
  then obtain w2 where
    ensure: "ensureContainers sim_client [?cache] (UpdateCheck (AppConfig redis_config)) ?wb =
      (Inl (Err ''No such image: redis:7''), w2)"
    by (cases "ensureContainers sim_client [?cache] (UpdateCheck (AppConfig redis_config)) ?wb")
       auto
  have down: "fst (ListAllContariners down_client ?ws) = Inl (Err ''Cannot connect to the Docker daemon'')"
    by (simp add: prog_defs down_client_def sim_client_def)
  have up: "ListAllContariners sim_client ?ws =
      (Inr ?obs, \<lparr>engine = steady_engine, calls = [ListCall]\<rparr>)"
    by (simp add: eval_defs)
  have run: "run_tasks (length ?obs)
      (map (\<lambda>container. stats_task half_stats (ID container)) ?obs)
      \<lparr>statsChan = [], errChan = []\<rparr> = (?ch, True)"
    by (simp add: stats_task_def half_stats_def)
  have ne: "errChan ?ch \<noteq> []" by simp
  note h = C6_handlers[where cfg = web_config and g = "[]" and w = ?ws]
  from h[where NewPort = ?bad and err = "''invalid port''" and cli = sim_client] conv
  have 1: "fst (reconcileContainers ?bad sim_client web_config [] ?ws) =
     ProcessExit ''Error converting config to Docker config: invalid port''"
    by simp
  from h[where NewPort = slashPort and cli = down_client and specs = "[web_spec]"
      and g' = "[web_spec]" and err = "''Cannot connect to the Docker daemon''"
      and ?w1.0 = "\<lparr>engine = steady_engine, calls = [ListCall]\<rparr>"]
    ConfigToDockerConfig_web[of "[]"] flag prune
  have 2: "fst (reconcileContainers slashPort down_client web_config [] ?ws) =
     ProcessExit
       ''Error when removing unwanted containers: Cannot connect to the Docker daemon''"
    by simp
  from C6_handlers[where cfg = redis_config and g = "[]" and w = ?wb and NewPort = slashPort
      and cli = sim_client and specs = "[?cache]" and g' = "[?cache]"
      and err = "''No such image: redis:7''" and ?w1.0 = ?wb
      and ?w2.0 = w2]
    ConfigToDockerConfig_redis noflag ensure
  have 3: "fst (reconcileContainers slashPort sim_client redis_config [] ?wb) =
     ProcessExit ''Error ensuring containers: No such image: redis:7''"
    by simp
  from h[where cli = down_client and x = "Err ''Cannot connect to the Docker daemon''"
      and stats = half_stats and dm = no_metrics] down
  have 4: "fst (GenerateMetrics half_stats down_client no_metrics ?ws) =
     Responded 500 (''Could not list containers'' @ newline)"
    by simp
  from h[where cli = sim_client and containers = ?obs
      and w' = "\<lparr>engine = steady_engine, calls = [ListCall]\<rparr>"
      and stats = half_stats and ch = ?ch and dm = no_metrics] up run ne
  have 5: "GenerateMetrics half_stats sim_client no_metrics ?ws =
     (Responded 500 (''Errors occurred: ['' @ join_space (errChan ?ch) @ '']'' @ newline),
      foldl UpdateMetrics no_metrics (statsChan ?ch),
      \<lparr>engine = steady_engine, calls = [ListCall]\<rparr>)"
    by simp
  have 6: "CPUUsageTotal (foldl UpdateMetrics no_metrics (statsChan ?ch)) (''c1'', ''/web'') =
      Some (Finite 20)"
    by (simp add: UpdateMetrics_def Let_def cpuPercent_busy) (simp add: busy_stats_def)
  from 1 2 3 4 5 6 show ?thesis by simp
qed

text \<open>
  Claim C6 as stated fails for two of the three endpoints. A reload whose read of the
  file fails, and a reconciliation whose container creation fails, end the process
  and write no response.
\<close>

theorem C6_fatal_exit_counterexample:
  "fst (reloadConfig (Inl ''open config.yaml: no such file or directory'') web_config) =
     ProcessExit
       ''Error reloading config: error reading config: open config.yaml: no such file or directory'' \<and>
   fst (reconcileContainers slashPort sim_client redis_config []
          \<lparr>engine = bare_engine, calls = []\<rparr>) =
     ProcessExit ''Error ensuring containers: No such image: redis:7''"
proof -
  let ?wb = "\<lparr>engine = bare_engine, calls = []\<rparr>"
  let ?cache = "\<lparr>Image = ''redis:7'', Name = ''cache'', ExposedPorts = Some {},
            PortBindings = Some Map.empty, Env = None, Cmd = None\<rparr>"
  have flags: "RemoveUnwantedContainers (AppConfig redis_config) = False"
    "UpdateCheck (AppConfig redis_config) = False"
    by (simp_all add: redis_config_def)
  have "fst (ensureContainers sim_client [?cache] False ?wb) =
      Inl (Err ''No such image: redis:7'')"
    by (simp add: eval_defs)
  then obtain w2 where ensure: "ensureContainers sim_client [?cache] False ?wb =
      (Inl (Err ''No such image: redis:7''), w2)"
    by (cases "ensureContainers sim_client [?cache] False ?wb") auto
  have "fst (reconcileContainers slashPort sim_client redis_config [] ?wb) =
     ProcessExit ''Error ensuring containers: No such image: redis:7''"
    by (simp add: reconcileContainers_def ConfigToDockerConfig_redis flags fatal_def ensure)
  then show ?thesis
    by (simp add: reloadConfig_def updateConfig_def)
qed

text \<open>
  Claim C9 fails on the code at a scrape over one container whose stats body breaks
  off. The task sends the read error, which fills the error channel of capacity one,
  goes on, and blocks for good on sending the unmarshal error; the sample channel is
  never closed and the handler never reports anything.
\<close>

theorem C9_second_error_blocks:
  "run_tasks 1 [stats_task broken_stats ''c1''] \<lparr>statsChan = [], errChan = []\<rparr> =
     (\<lparr>statsChan = [], errChan = [''could not read stats for container c1: unexpected EOF'']\<rparr>,
      False) \<and>
   fst (GenerateMetrics broken_stats sim_client no_metrics
          \<lparr>engine = drift_engine, calls = []\<rparr>) = NoResponse"
  by (simp add: GenerateMetrics_def stats_task_def broken_stats_def eval_defs)

lemma cpuPercent_zero_system_delta:
  assumes "CPUStats_SystemUsage stats = PreCPUStats_SystemUsage stats"
  shows "cpuPercent stats = NaN \<or> cpuPercent stats = PosInf"
proof -
  define a where "a = real (unat (CPUStats_TotalUsage stats - PreCPUStats_TotalUsage stats))"
  define n where "n = real (length (CPUStats_PercpuUsage stats))"
  have a0: "0 \<le> a" unfolding a_def by (rule of_nat_0_le_iff)
  have n0: "0 \<le> n" unfolding n_def by (rule of_nat_0_le_iff)
  have "cpuPercent stats = fmul (fmul (fdiv (Finite a) (Finite 0)) (Finite n)) (Finite 100)"
    unfolding cpuPercent_def float64_of_def Let_def a_def n_def using assms by simp
  with a0 n0 show ?thesis
    by (cases "a = 0"; cases "n = 0") auto
qed

text \<open>
  Claim C3 fails on the code: the division is not guarded. For the sample of an idle
  container, with every counter zero and so a zero system-usage delta, the value set
  on the gauge is not zero but a NaN.
\<close>

theorem C3_idle_sample_is_nan:
  "CPUStats_SystemUsage idle_stats - PreCPUStats_SystemUsage idle_stats = 0 \<and>
   cpuPercent idle_stats = NaN \<and>
   CPUUsageTotal (UpdateMetrics no_metrics idle_stats) (''c1'', ''/web'') = Some NaN"
  by (simp add: cpuPercent_def UpdateMetrics_def idle_stats_def float64_of_def Let_def)

end
